theory Spec2Isabelle
  imports Main
begin

section \<open>Values, objects and thrown errors\<close>

text \<open>
  JavaScript objects have identity. An object is named by its address; two objects are
  the same object exactly when their addresses are equal. Primitive values carry no
  address.
\<close>

type_synonym addr = nat

datatype jsvalue = Undefined | Null | Bool bool | Num int | Str string | Ref addr

text \<open>A thrown value: \<open>new Error(msg)\<close> or the \<open>TypeError\<close> of a built-in.\<close>

datatype error = Error string | TypeError string

section \<open>Binding sites\<close>

text \<open>
  A legacy binding site (\<open>Part\<close> of \<open>part.js\<close>) is owned by the rendering engine. The
  adapter reads of it: its identity, the outcome of each \<open>instanceof\<close> test it makes, and
  the DOM nodes reachable from it (\<open>startNode\<close>, \<open>element\<close>, \<open>committer.element\<close>; \<open>None\<close>
  is \<open>null\<close> or \<open>undefined\<close>). The class hierarchy of \<open>parts.js\<close> is not fixed here: every
  combination of \<open>instanceof\<close> outcomes is a possible site.

  Modelled from the spec: the static metadata of a site, which the sources at hand never
  read themselves: the name of the attribute (or property, or event) it binds, the tag
  name of the element that owns it, and the literal string fragments around the binding
  (\<open>None\<close> when there are none). What they hold at a child site is of no consequence.
\<close>

record part =
  part_id :: addr
  instanceof_NodePart :: bool
  instanceof_EventPart :: bool
  instanceof_BooleanAttributePart :: bool
  instanceof_PropertyPart :: bool
  instanceof_AttributePart :: bool
  startNode :: "addr option"
  element :: "addr option"
  committer_element :: "addr option"
  name :: string
  tagName :: string
  strings :: "string list option"

text \<open>
  Modelled from the spec: the modern Part classes (\<open>ChildPart\<close>, \<open>EventPart\<close>,
  \<open>BooleanAttributePart\<close>, \<open>AttributePart\<close> of \<open>parts.js\<close>, together \<open>NextPart\<close>) are not
  part of the sources at hand. Each is an object of its own (\<open>next_id\<close>) of one of four
  classes that wraps one legacy binding site, which \<open>AsyncDirective\<close> reads back as
  \<open>legacyPart\<close>.
\<close>

datatype next_class = ChildPart | EventPart | BooleanAttributePart | AttributePart

record next_part =
  next_id :: addr
  next_class :: next_class
  legacyPart :: part

text \<open>\<open>PartType\<close> of \<open>directive-helpers.ts\<close>, and the numbers it stands for.\<close>

datatype PartType = ATTRIBUTE | CHILD | PROPERTY | BOOLEAN_ATTRIBUTE | EVENT | ELEMENT

fun PartType_value :: "PartType \<Rightarrow> nat" where
  "PartType_value ATTRIBUTE = 1"
| "PartType_value CHILD = 2"
| "PartType_value PROPERTY = 3"
| "PartType_value BOOLEAN_ATTRIBUTE = 4"
| "PartType_value EVENT = 5"
| "PartType_value ELEMENT = 6"

text \<open>
  \<open>PartInfo = ChildPartInfo | AttributePartInfo\<close> of \<open>directive.ts\<close>: a value with readonly
  fields. \<open>ChildPartInfo\<close> has the type \<open>CHILD\<close> only; \<open>AttributePartInfo\<close> has a type (which
  its declaration restricts to \<open>ATTRIBUTE\<close>, \<open>PROPERTY\<close>, \<open>BOOLEAN_ATTRIBUTE\<close> and \<open>EVENT\<close>),
  optional \<open>strings\<close>, a \<open>name\<close> and a \<open>tagName\<close>.
\<close>

datatype PartInfo =
    ChildPartInfo
  | AttributePartInfo PartType "string list option" string string

fun PartInfo_type :: "PartInfo \<Rightarrow> PartType" where
  "PartInfo_type ChildPartInfo = CHILD"
| "PartInfo_type (AttributePartInfo t _ _ _) = t"

text \<open>
  Modelled from the spec: what a modern Part shows as \<open>PartInfo\<close> when a directive class
  is constructed with it (the accessors are those of the classes of \<open>parts.js\<close>, not
  part of the sources at hand). It is a view over the legacy binding site the Part wraps:
  the kind (child, event, boolean attribute, property or attribute), and for every kind
  but child the attribute name, the owning tag name and the literal string fragments
  of that site. \<open>AttributePart\<close> serves properties and attributes alike; its kind is
  \<open>PROPERTY\<close> for a legacy property part and \<open>ATTRIBUTE\<close> otherwise.
\<close>

definition PartInfo_of :: "next_part \<Rightarrow> PartInfo" where
  "PartInfo_of np =
     (case next_class np of
        ChildPart \<Rightarrow> ChildPartInfo
      | EventPart \<Rightarrow>
          AttributePartInfo EVENT (strings (legacyPart np)) (name (legacyPart np))
            (tagName (legacyPart np))
      | BooleanAttributePart \<Rightarrow>
          AttributePartInfo BOOLEAN_ATTRIBUTE (strings (legacyPart np)) (name (legacyPart np))
            (tagName (legacyPart np))
      | AttributePart \<Rightarrow>
          AttributePartInfo
            (if instanceof_PropertyPart (legacyPart np) then PROPERTY else ATTRIBUTE)
            (strings (legacyPart np)) (name (legacyPart np)) (tagName (legacyPart np)))"

section \<open>The world\<close>

text \<open>
  What happens during a run is recorded in order: the calls the adapter makes on legacy
  binding sites (\<open>SetValue\<close>, \<open>Commit\<close>, the effects the rendering engine sees), and the
  calls it makes into a directive class (\<open>Construct\<close> with the constructor's argument,
  \<open>Update\<close> with the instance, the arguments and the outcome).
\<close>

datatype event =
    Construct next_part
  | Update addr next_part "jsvalue list" "error + jsvalue"
  | SetValue addr jsvalue
  | Commit addr

text \<open>
  A directive class, as the adapter uses it: the constructor (which may throw), \<open>render\<close>
  and an optional override of \<open>update\<close>. The methods act on the fields of \<open>this\<close>, of type
  \<open>'s\<close>; a method that throws keeps the mutations it made before. The methods themselves
  call nothing on a binding site and call no directive function.
\<close>

record 's directive_class =
  construct :: "next_part \<Rightarrow> error + 's"
  render :: "'s \<Rightarrow> jsvalue list \<Rightarrow> (error + jsvalue) \<times> 's"
  update_override :: "('s \<Rightarrow> next_part \<Rightarrow> jsvalue list \<Rightarrow> (error + jsvalue) \<times> 's) option"

text \<open>
  The objects a value can refer to: a plain object, a function written by a user (named by
  its code), or the arrow function \<open>(part) => {...}\<close> that \<open>litNextDirective\<close> creates,
  closed over \<open>directiveClass\<close>, \<open>partToInstance\<close> and \<open>props\<close>.
\<close>

datatype 's obj =
    PlainObject
  | UserFunction nat
  | DirectiveFunction "'s directive_class" addr "jsvalue list"

record 's world =
  directives :: "addr set"
  objects :: "addr \<Rightarrow> 's obj"
  weakmaps :: "addr \<Rightarrow> (addr \<rightharpoonup> next_part \<times> addr)"
  instances :: "addr \<Rightarrow> 's"
  nextAddr :: addr
  isConnected :: "addr \<Rightarrow> bool"
  trace :: "event list"

text \<open>
  \<open>directives\<close> is the module's \<open>WeakMap<object, true>\<close>: the set of its keys.
  \<open>weakmaps m\<close> is the content of the \<open>WeakMap\<close> allocated at \<open>m\<close>, keyed by the identity
  of a legacy binding site. \<open>instances a\<close> holds the fields of the directive instance
  at \<open>a\<close>. \<open>nextAddr\<close> is the next unused address. \<open>isConnected n\<close> is \<open>Node.isConnected\<close>
  of the DOM node \<open>n\<close>.
\<close>

section \<open>directive-helpers.ts\<close>

definition typeof :: "'s world \<Rightarrow> jsvalue \<Rightarrow> string" where
  "typeof w v =
     (case v of
        Undefined \<Rightarrow> ''undefined''
      | Null \<Rightarrow> ''object''
      | Bool _ \<Rightarrow> ''boolean''
      | Num _ \<Rightarrow> ''number''
      | Str _ \<Rightarrow> ''string''
      | Ref a \<Rightarrow> (case objects w a of PlainObject \<Rightarrow> ''object'' | _ \<Rightarrow> ''function''))"

text \<open>\<open>directives.has(o)\<close>: a primitive is never a key.\<close>

definition directives_has :: "'s world \<Rightarrow> jsvalue \<Rightarrow> bool" where
  "directives_has w v = (case v of Ref a \<Rightarrow> a \<in> directives w | _ \<Rightarrow> False)"

text \<open>\<open>directives.set(d, true)\<close>: a \<open>WeakMap\<close> refuses a key that is not an object.\<close>

definition directives_set :: "jsvalue \<Rightarrow> 's world \<Rightarrow> error + 's world" where
  "directives_set d w =
     (case d of
        Ref a \<Rightarrow> Inr (w\<lparr>directives := insert a (directives w)\<rparr>)
      | _ \<Rightarrow> Inl (TypeError ''Invalid value used as weak map key''))"

definition isDirective :: "'s world \<Rightarrow> jsvalue \<Rightarrow> bool" where
  "isDirective w v = (typeof w v = ''function'' \<and> directives_has w v)"

section \<open>directive.ts\<close>

subsection \<open>Translation of a legacy binding site\<close>

definition new_NextPart :: "next_class \<Rightarrow> part \<Rightarrow> 's world \<Rightarrow> (error + next_part) \<times> 's world" where
  "new_NextPart c p w =
     (Inr \<lparr>next_id = nextAddr w, next_class = c, legacyPart = p\<rparr>,
      w\<lparr>nextAddr := Suc (nextAddr w)\<rparr>)"

definition legacyPartToPart :: "part \<Rightarrow> 's world \<Rightarrow> (error + next_part) \<times> 's world" where
  "legacyPartToPart p w =
     (if instanceof_NodePart p then new_NextPart ChildPart p w
      else if instanceof_EventPart p then new_NextPart EventPart p w
      else if instanceof_BooleanAttributePart p then new_NextPart BooleanAttributePart p w
      else if instanceof_PropertyPart p \<or> instanceof_AttributePart p
        then new_NextPart AttributePart p w
      else (Inl (Error ''Unknown part type''), w))"

subsection \<open>The directive function of a class\<close>

text \<open>\<open>new directiveClass(modernPart)\<close>: the instance gets an address when the constructor returns.\<close>

definition new_directiveClass ::
  "'s directive_class \<Rightarrow> next_part \<Rightarrow> 's world \<Rightarrow> (error + addr) \<times> 's world" where
  "new_directiveClass directiveClass partInfo w =
     (let w1 = w\<lparr>trace := trace w @ [Construct partInfo]\<rparr> in
      case construct directiveClass partInfo of
        Inl e \<Rightarrow> (Inl e, w1)
      | Inr this \<Rightarrow>
          (Inr (nextAddr w1),
           w1\<lparr>instances := (instances w1)(nextAddr w1 := this), nextAddr := Suc (nextAddr w1)\<rparr>))"

text \<open>\<open>Directive.update\<close>: unless a subclass overrides it, \<open>update\<close> is \<open>render(...props)\<close>.\<close>

definition Directive_update ::
  "'s directive_class \<Rightarrow> 's \<Rightarrow> next_part \<Rightarrow> jsvalue list \<Rightarrow> (error + jsvalue) \<times> 's" where
  "Directive_update directiveClass this p props =
     (case update_override directiveClass of
        None \<Rightarrow> render directiveClass this props
      | Some u \<Rightarrow> u this p props)"

text \<open>\<open>instance.update(modernPart, props)\<close> on the instance at address \<open>inst\<close>.\<close>

definition instance_update ::
  "'s directive_class \<Rightarrow> addr \<Rightarrow> next_part \<Rightarrow> jsvalue list \<Rightarrow> 's world \<Rightarrow>
   (error + jsvalue) \<times> 's world" where
  "instance_update directiveClass inst modernPart props w =
     (case Directive_update directiveClass (instances w inst) modernPart props of
        (r, this') \<Rightarrow>
          (r, w\<lparr>instances := (instances w)(inst := this'),
                trace := trace w @ [Update inst modernPart props r]\<rparr>))"

text \<open>
  Modelled from the spec: \<open>part.setValue(v)\<close> and \<open>part.commit()\<close> are operations of the
  rendering engine on its binding sites (\<open>part.js\<close>, not part of the sources at hand). A
  call is recorded against the identity of the site it is made on, and returns.
\<close>

definition part_setValue :: "part \<Rightarrow> jsvalue \<Rightarrow> 's world \<Rightarrow> 's world" where
  "part_setValue p v w = w\<lparr>trace := trace w @ [SetValue (part_id p) v]\<rparr>"

definition part_commit :: "part \<Rightarrow> 's world \<Rightarrow> 's world" where
  "part_commit p w = w\<lparr>trace := trace w @ [Commit (part_id p)]\<rparr>"

definition WeakMap_get :: "'s world \<Rightarrow> addr \<Rightarrow> part \<Rightarrow> (next_part \<times> addr) option" where
  "WeakMap_get w m p = weakmaps w m (part_id p)"

definition WeakMap_set :: "addr \<Rightarrow> part \<Rightarrow> next_part \<times> addr \<Rightarrow> 's world \<Rightarrow> 's world" where
  "WeakMap_set m p entry w = w\<lparr>weakmaps := (weakmaps w)(m := (weakmaps w m)(part_id p \<mapsto> entry))\<rparr>"

text \<open>The last two statements: \<open>part.setValue(instance.update(modernPart, props)); part.commit();\<close>\<close>

definition write_back ::
  "'s directive_class \<Rightarrow> jsvalue list \<Rightarrow> part \<Rightarrow> next_part \<Rightarrow> addr \<Rightarrow> 's world \<Rightarrow>
   (error + unit) \<times> 's world" where
  "write_back directiveClass props p modernPart inst w =
     (case instance_update directiveClass inst modernPart props w of
        (Inl e, w1) \<Rightarrow> (Inl e, w1)
      | (Inr v, w1) \<Rightarrow> (Inr (), part_commit p (part_setValue p v w1)))"

text \<open>
  The arrow function \<open>(part: Part) => {...}\<close> of \<open>litNextDirective\<close>, with the variables it
  closes over as parameters: the class, the address of \<open>partToInstance\<close>, and \<open>props\<close>.
\<close>

definition directiveFn ::
  "'s directive_class \<Rightarrow> addr \<Rightarrow> jsvalue list \<Rightarrow> part \<Rightarrow> 's world \<Rightarrow> (error + unit) \<times> 's world" where
  "directiveFn directiveClass partToInstance props p w =
     (case WeakMap_get w partToInstance p of
        None \<Rightarrow>
          (case legacyPartToPart p w of
             (Inl e, w1) \<Rightarrow> (Inl e, w1)
           | (Inr modernPart, w1) \<Rightarrow>
               (case new_directiveClass directiveClass modernPart w1 of
                  (Inl e, w2) \<Rightarrow> (Inl e, w2)
                | (Inr inst, w2) \<Rightarrow>
                    write_back directiveClass props p modernPart inst
                      (WeakMap_set partToInstance p (modernPart, inst) w2)))
      | Some (modernPart, inst) \<Rightarrow> write_back directiveClass props p modernPart inst w)"

subsection \<open>The factory\<close>

type_synonym 's factory = "jsvalue list \<Rightarrow> 's world \<Rightarrow> (error + jsvalue) \<times> 's world"

text \<open>The \<open>else\<close> branch of \<open>directive\<close>: the function returned for a plain factory.\<close>

definition directive_plain :: "'s factory \<Rightarrow> 's factory" where
  "directive_plain factoryOrClass args w =
     (case factoryOrClass args w of
        (Inl e, w1) \<Rightarrow> (Inl e, w1)
      | (Inr d, w1) \<Rightarrow>
          (case directives_set d w1 of
             Inl e \<Rightarrow> (Inl e, w1)
           | Inr w2 \<Rightarrow> (Inr d, w2)))"

text \<open>\<open>(...props) => (part) => {...}\<close>: every call makes a new function object.\<close>

definition litNext_factory :: "'s directive_class \<Rightarrow> addr \<Rightarrow> 's factory" where
  "litNext_factory directiveClass partToInstance props w =
     (Inr (Ref (nextAddr w)),
      w\<lparr>objects := (objects w)(nextAddr w := DirectiveFunction directiveClass partToInstance props),
        nextAddr := Suc (nextAddr w)\<rparr>)"

definition new_WeakMap :: "'s world \<Rightarrow> addr \<times> 's world" where
  "new_WeakMap w =
     (nextAddr w, w\<lparr>weakmaps := (weakmaps w)(nextAddr w := Map.empty), nextAddr := Suc (nextAddr w)\<rparr>)"

text \<open>
  \<open>litNextDirective\<close> passes an arrow function to \<open>directive\<close>; an arrow function has no
  \<open>_$isDirectiveClass$\<close>, so \<open>directive\<close> takes its \<open>else\<close> branch.
\<close>

definition litNextDirective :: "'s directive_class \<Rightarrow> 's world \<Rightarrow> 's factory \<times> 's world" where
  "litNextDirective directiveClass w =
     (case new_WeakMap w of
        (partToInstance, w1) \<Rightarrow> (directive_plain (litNext_factory directiveClass partToInstance), w1))"

text \<open>
  The argument of \<open>directive\<close>: a plain factory function, or a class that extends
  \<open>Directive\<close>.
\<close>

datatype 's factoryOrClass =
    Factory (the_factory: "'s factory")
  | DirectiveClass (the_class: "'s directive_class")

text \<open>\<open>Directive\<close> has the static \<open>_$isDirectiveClass$ = true\<close>, which its subclasses inherit.\<close>

definition isDirectiveClass :: "'s factoryOrClass \<Rightarrow> bool" where
  "isDirectiveClass factoryOrClass = (case factoryOrClass of DirectiveClass _ \<Rightarrow> True | Factory _ \<Rightarrow> False)"

definition directive :: "'s factoryOrClass \<Rightarrow> 's world \<Rightarrow> 's factory \<times> 's world" where
  "directive factoryOrClass w =
     (if isDirectiveClass factoryOrClass then litNextDirective (the_class factoryOrClass) w
      else (directive_plain (the_factory factoryOrClass), w))"

section \<open>async-directive.ts\<close>

text \<open>
  The fields \<open>AsyncDirective\<close> declares. A subclass adds its own fields: its instances
  are extensions of this record.
\<close>

record AsyncDirective =
  ddPart :: part
  renderedYet :: bool

text \<open>
  The constructor's own statements, run after \<open>super(partInfo)\<close>, which does nothing: the
  field initialiser of \<open>renderedYet\<close> and the assignment of \<open>ddPart\<close>.
\<close>

definition AsyncDirective_constructor :: "next_part \<Rightarrow> AsyncDirective" where
  "AsyncDirective_constructor partInfo = \<lparr>ddPart = legacyPart partInfo, renderedYet = False\<rparr>"

definition ddGetNode :: "'u AsyncDirective_scheme \<Rightarrow> addr option" where
  "ddGetNode this =
     (if instanceof_NodePart (ddPart this) then startNode (ddPart this)
      else if instanceof_EventPart (ddPart this) then element (ddPart this)
      else if instanceof_BooleanAttributePart (ddPart this) then element (ddPart this)
      else if instanceof_PropertyPart (ddPart this) \<or> instanceof_AttributePart (ddPart this)
        then committer_element (ddPart this)
      else None)"

text \<open>\<open>shouldRender\<close> reads the DOM (\<open>connected\<close>) and may set \<open>renderedYet\<close>.\<close>

definition shouldRender ::
  "(addr \<Rightarrow> bool) \<Rightarrow> 'u AsyncDirective_scheme \<Rightarrow> bool \<times> 'u AsyncDirective_scheme" where
  "shouldRender connected this =
     (if \<not> renderedYet this then (True, this\<lparr>renderedYet := True\<rparr>)
      else
        (case ddGetNode this of
           None \<Rightarrow> (True, this)
         | Some node \<Rightarrow> if \<not> connected node then (False, this) else (True, this)))"

definition AsyncDirective_setValue ::
  "jsvalue \<Rightarrow> 'u AsyncDirective_scheme \<Rightarrow> 's world \<Rightarrow> 'u AsyncDirective_scheme \<times> 's world" where
  "AsyncDirective_setValue v this w =
     (case shouldRender (isConnected w) this of
        (False, this') \<Rightarrow> (this', w)
      | (True, this') \<Rightarrow> (this', part_commit (ddPart this') (part_setValue (ddPart this') v w)))"

text \<open>\<open>setValue\<close> called on the instance stored at address \<open>inst\<close>.\<close>

definition instance_setValue ::
  "addr \<Rightarrow> jsvalue \<Rightarrow> ('u AsyncDirective_scheme) world \<Rightarrow> ('u AsyncDirective_scheme) world" where
  "instance_setValue inst v w =
     (case AsyncDirective_setValue v (instances w inst) w of
        (this', w1) \<Rightarrow> w1\<lparr>instances := (instances w1)(inst := this')\<rparr>)"

text \<open>
  A subclass of \<open>AsyncDirective\<close>: its constructor calls \<open>super(partInfo)\<close> and then sets
  its own fields.
\<close>

definition AsyncDirective_subclass ::
  "(next_part \<Rightarrow> error + 'u) \<Rightarrow>
   ('u AsyncDirective_scheme \<Rightarrow> jsvalue list \<Rightarrow> (error + jsvalue) \<times> 'u AsyncDirective_scheme) \<Rightarrow>
   ('u AsyncDirective_scheme) directive_class" where
  "AsyncDirective_subclass own_fields render_method =
     \<lparr>construct = (\<lambda>partInfo.
         case own_fields partInfo of
           Inl e \<Rightarrow> Inl e
         | Inr u \<Rightarrow> Inr (AsyncDirective.extend (AsyncDirective_constructor partInfo) u)),
      render = render_method,
      update_override = None\<rparr>"

section \<open>Runs\<close>

text \<open>
  The calls on legacy binding sites among the recorded events, and the constructor calls.
\<close>

fun is_legacy_call :: "event \<Rightarrow> bool" where
  "is_legacy_call (SetValue _ _) = True"
| "is_legacy_call (Commit _) = True"
| "is_legacy_call _ = False"

fun is_Construct :: "event \<Rightarrow> bool" where
  "is_Construct (Construct _) = True"
| "is_Construct _ = False"

fun is_Update :: "event \<Rightarrow> bool" where
  "is_Update (Update _ _ _ _) = True"
| "is_Update _ = False"

definition legacy_calls :: "event list \<Rightarrow> event list" where
  "legacy_calls es = filter is_legacy_call es"

text \<open>
  Consecutive renders of one binding site: the rendering engine calls a directive function
  of the same class and cache with that site once per render, each render with its own
  arguments. A render that throws does not stop the next one. The outcome of every
  call is kept.
\<close>

fun renders ::
  "'s directive_class \<Rightarrow> addr \<Rightarrow> part \<Rightarrow> jsvalue list list \<Rightarrow> 's world \<Rightarrow>
   (error + unit) list \<times> 's world" where
  "renders directiveClass partToInstance p [] w = ([], w)"
| "renders directiveClass partToInstance p (props # rest) w =
     (case directiveFn directiveClass partToInstance props p w of
        (r, w1) \<Rightarrow>
          (case renders directiveClass partToInstance p rest w1 of
             (rs, w2) \<Rightarrow> (r # rs, w2)))"

text \<open>The events recorded since the world \<open>w\<close>, in a later world \<open>w'\<close>.\<close>

definition events_since :: "'s world \<Rightarrow> 's world \<Rightarrow> event list" where
  "events_since w w' = drop (length (trace w)) (trace w')"

text \<open>
  What renders of one site look like when one instance \<open>inst\<close>, with one modern Part \<open>np\<close>,
  serves all of them: every \<open>update\<close> runs on the fields the \<open>update\<close> before it left, and
  an \<open>update\<close> that returns is followed by its write through the legacy site.
\<close>

fun rendered_events ::
  "'s directive_class \<Rightarrow> addr \<Rightarrow> next_part \<Rightarrow> part \<Rightarrow> 's \<Rightarrow> jsvalue list list \<Rightarrow> event list" where
  "rendered_events cls inst np p this [] = []"
| "rendered_events cls inst np p this (props # rest) =
     (case Directive_update cls this np props of
        (Inl e, this') \<Rightarrow> Update inst np props (Inl e) # rendered_events cls inst np p this' rest
      | (Inr v, this') \<Rightarrow>
          Update inst np props (Inr v) # SetValue (part_id p) v # Commit (part_id p) #
          rendered_events cls inst np p this' rest)"

fun fields_after :: "'s directive_class \<Rightarrow> next_part \<Rightarrow> 's \<Rightarrow> jsvalue list list \<Rightarrow> 's" where
  "fields_after cls np this [] = this"
| "fields_after cls np this (props # rest) =
     fields_after cls np (snd (Directive_update cls this np props)) rest"

text \<open>The values that calls of \<open>update\<close> returned, and the write that belongs to a value.\<close>

fun returned :: "event \<Rightarrow> jsvalue list" where
  "returned (Update _ _ _ (Inr v)) = [v]"
| "returned _ = []"

definition returned_values :: "event list \<Rightarrow> jsvalue list" where
  "returned_values es = concat (map returned es)"

definition write_of :: "part \<Rightarrow> jsvalue \<Rightarrow> event list" where
  "write_of p v = [SetValue (part_id p) v, Commit (part_id p)]"

fun returns :: "error + 'a \<Rightarrow> bool" where
  "returns (Inr _) = True"
| "returns (Inl _) = False"

text \<open>Tagging a list of values, one after the other; a refused key changes nothing.\<close>

fun tag_all :: "jsvalue list \<Rightarrow> 's world \<Rightarrow> 's world" where
  "tag_all [] w = w"
| "tag_all (d # ds) w = tag_all ds (case directives_set d w of Inl _ \<Rightarrow> w | Inr w1 \<Rightarrow> w1)"

section \<open>Sample sites, classes and worlds\<close>

text \<open>The world when the modules have loaded: nothing tagged, nothing allocated.\<close>

definition loaded :: "'s \<Rightarrow> 's world" where
  "loaded unset =
     \<lparr>directives = {}, objects = (\<lambda>_. PlainObject), weakmaps = (\<lambda>_. Map.empty),
      instances = (\<lambda>_. unset), nextAddr = 0, isConnected = (\<lambda>_. False), trace = []\<rparr>"

text \<open>A binding site of no known class, and sites of the five classes.\<close>

definition element_site :: part where
  "element_site =
     \<lparr>part_id = 6, instanceof_NodePart = False, instanceof_EventPart = False,
      instanceof_BooleanAttributePart = False, instanceof_PropertyPart = False,
      instanceof_AttributePart = False, startNode = None, element = Some 60,
      committer_element = None, name = [], tagName = ''DIV'', strings = None\<rparr>"

definition node_site :: part where
  "node_site = element_site\<lparr>part_id := 2, instanceof_NodePart := True, startNode := Some 20,
     element := None\<rparr>"

definition event_site :: part where
  "event_site = element_site\<lparr>part_id := 5, instanceof_EventPart := True, element := Some 50,
     name := ''click'', tagName := ''BUTTON''\<rparr>"

definition boolean_site :: part where
  "boolean_site = element_site\<lparr>part_id := 4, instanceof_BooleanAttributePart := True,
     element := Some 40, name := ''hidden'', strings := Some [[], []]\<rparr>"

definition attribute_site :: part where
  "attribute_site = element_site\<lparr>part_id := 1, instanceof_AttributePart := True,
     element := None, committer_element := Some 10, name := ''class'',
     strings := Some [''a '', '' b'']\<rparr>"

text \<open>\<open>PropertyPart\<close> extends \<open>AttributePart\<close> in lit-html: both tests hold.\<close>

definition property_site :: part where
  "property_site = attribute_site\<lparr>part_id := 3, instanceof_PropertyPart := True,
     committer_element := Some 30, name := ''value'', tagName := ''INPUT'',
     strings := Some [[], []]\<rparr>"

text \<open>
  A class that counts its renders: \<open>render(v)\<close> returns the text of \<open>v\<close> followed by one
  \<open>!\<close> per earlier render, and throws when called without a string.
\<close>

definition counting :: "nat directive_class" where
  "counting =
     \<lparr>construct = (\<lambda>_. Inr 0),
      render = (\<lambda>this props.
        case props of
          Str s # _ \<Rightarrow> (Inr (Str (s @ replicate this CHR ''!'')), Suc this)
        | _ \<Rightarrow> (Inl (Error ''no text''), Suc this)),
      update_override = None\<rparr>"

text \<open>An async directive without fields of its own, whose \<open>render\<close> returns its first argument.\<close>

definition echo :: "AsyncDirective directive_class" where
  "echo = AsyncDirective_subclass (\<lambda>_. Inr ())
     (\<lambda>this props. (case props of [] \<Rightarrow> Inr Undefined | v # _ \<Rightarrow> Inr v, this))"

text \<open>A factory that returns the same function at every call, and a world where it exists.\<close>

definition shared_factory :: "nat factory" where
  "shared_factory args w = (Inr (Ref 0), w)"

definition with_functions :: "nat world" where
  "with_functions =
     (loaded 0)\<lparr>objects := (\<lambda>a. if a < 2 then UserFunction 7 else PlainObject), nextAddr := 2\<rparr>"

text \<open>
  The worlds after \<open>directive(Counting)\<close> and after \<open>directive(Echo)\<close>, called when the
  modules have loaded: \<open>partToInstance\<close> is the map at address 0.
\<close>

definition counting_made :: "nat world" where
  "counting_made = snd (directive (DirectiveClass counting) (loaded 0))"

definition echo_made :: "AsyncDirective world" where
  "echo_made =
     snd (directive (DirectiveClass echo)
       (loaded \<lparr>ddPart = element_site, renderedYet = False\<rparr>))"

text \<open>The modern Part made for \<open>attribute_site\<close> right after \<open>directive(Counting)\<close>.\<close>

definition attribute_next :: next_part where
  "attribute_next = \<lparr>next_id = 1, next_class = AttributePart, legacyPart = attribute_site\<rparr>"

text \<open>The modern Part made for \<open>property_site\<close> right after \<open>directive(Counting)\<close>.\<close>

definition property_next :: next_part where
  "property_next = \<lparr>next_id = 1, next_class = AttributePart, legacyPart = property_site\<rparr>"

text \<open>The modern Part made for \<open>node_site\<close> right after \<open>directive(Echo)\<close>.\<close>

definition node_next :: next_part where
  "node_next = \<lparr>next_id = 1, next_class = ChildPart, legacyPart = node_site\<rparr>"

text \<open>
  \<open>Echo\<close> rendered once at \<open>node_site\<close>, whose start node is detached, after which its
  author has called \<open>setValue\<close> once on the instance.
\<close>

definition echo_rendered :: "AsyncDirective world" where
  "echo_rendered =
     instance_setValue 2 (Str ''b'') (snd (directiveFn echo 0 [Str ''a''] node_site echo_made))"

section \<open>How one call of the directive function proceeds\<close>

lemma directiveFn_hit:
  "WeakMap_get w m p = Some (np, inst) \<Longrightarrow>
   directiveFn cls m props p w = write_back cls props p np inst w"
  by (simp add: directiveFn_def)

lemma write_back_eq:
  "Directive_update cls (instances w inst) np props = (r, this') \<Longrightarrow>
   write_back cls props p np inst w =
     (case r of Inl e \<Rightarrow> Inl e | Inr v \<Rightarrow> Inr (),
      w\<lparr>instances := (instances w)(inst := this'),
        trace := trace w @ Update inst np props r #
                   (case r of Inl e \<Rightarrow> [] | Inr v \<Rightarrow> write_of p v)\<rparr>)"
  by (cases r)
    (simp_all add: write_back_def instance_update_def part_commit_def part_setValue_def
      write_of_def)

lemma legacyPartToPart_Inr:
  "legacyPartToPart p w = (Inr np, w1) \<Longrightarrow>
   w1 = w\<lparr>nextAddr := Suc (nextAddr w)\<rparr> \<and> next_id np = nextAddr w \<and> legacyPart np = p"
  by (auto simp: legacyPartToPart_def new_NextPart_def split: if_splits)

lemma legacyPartToPart_Inl:
  "legacyPartToPart p w = (Inl e, w1) \<Longrightarrow> e = Error ''Unknown part type'' \<and> w1 = w"
  by (auto simp: legacyPartToPart_def new_NextPart_def split: if_splits)

lemma directiveFn_miss:
  assumes "WeakMap_get w m p = None"
    and "legacyPartToPart p w = (Inr np, w1)"
    and "construct cls np = Inr this0"
  shows "directiveFn cls m props p w =
     write_back cls props p np (nextAddr w1)
       (w1\<lparr>trace := trace w1 @ [Construct np],
           instances := (instances w1)(nextAddr w1 := this0),
           nextAddr := Suc (nextAddr w1),
           weakmaps := (weakmaps w1)(m := (weakmaps w1 m)(part_id p \<mapsto> (np, nextAddr w1)))\<rparr>)"
  using assms
  by (simp add: directiveFn_def new_directiveClass_def WeakMap_set_def Let_def)

lemma directiveFn_miss_throw:
  assumes "WeakMap_get w m p = None"
    and "legacyPartToPart p w = (Inr np, w1)"
    and "construct cls np = Inl e"
  shows "directiveFn cls m props p w = (Inl e, w1\<lparr>trace := trace w1 @ [Construct np]\<rparr>)"
  using assms
  by (simp add: directiveFn_def new_directiveClass_def Let_def)

lemma directiveFn_unknown:
  assumes "WeakMap_get w m p = None"
    and "legacyPartToPart p w = (Inl e, w1)"
  shows "directiveFn cls m props p w = (Inl e, w1)"
  using assms by (simp add: directiveFn_def)

lemma renders_hit:
  "WeakMap_get w m p = Some (np, inst) \<Longrightarrow>
   snd (renders cls m p propss w) =
     w\<lparr>instances := (instances w)(inst := fields_after cls np (instances w inst) propss),
       trace := trace w @ rendered_events cls inst np p (instances w inst) propss\<rparr>"
proof (induction propss arbitrary: w)
  case Nil
  then show ?case by simp
next
  case (Cons props rest)
  obtain r this' where u: "Directive_update cls (instances w inst) np props = (r, this')"
    by (cases "Directive_update cls (instances w inst) np props")
  obtain w1 where w1: "w1 = snd (directiveFn cls m props p w)" by simp
  have w1_eq: "w1 = w\<lparr>instances := (instances w)(inst := this'),
       trace := trace w @ Update inst np props r #
                   (case r of Inl e \<Rightarrow> [] | Inr v \<Rightarrow> write_of p v)\<rparr>"
    using Cons.prems u by (simp add: w1 directiveFn_hit write_back_eq)
  have hit1: "WeakMap_get w1 m p = Some (np, inst)"
    using Cons.prems by (simp add: w1_eq WeakMap_get_def)
  have "snd (renders cls m p (props # rest) w) = snd (renders cls m p rest w1)"
    by (simp add: w1 split: prod.splits)
  then show ?case
    using Cons.IH [OF hit1] u
    by (cases r) (simp_all add: w1_eq write_of_def fun_upd_def if_distrib cong: if_cong)
qed

section \<open>The events of a run\<close>

lemma legacy_calls_append: "legacy_calls (xs @ ys) = legacy_calls xs @ legacy_calls ys"
  by (simp add: legacy_calls_def)

lemma returned_values_append: "returned_values (xs @ ys) = returned_values xs @ returned_values ys"
  by (simp add: returned_values_def)

lemma directiveFn_events:
  assumes "directiveFn cls m props p w = (r, w')"
  shows "\<exists>es. trace w' = trace w @ es
     \<and> legacy_calls es = concat (map (write_of p) (returned_values es))
     \<and> length (returned_values es) = (if returns r then 1 else 0)"
proof (cases "WeakMap_get w m p")
  case (Some entry)
  obtain np inst where entry: "entry = (np, inst)" by (cases entry)
  obtain u this' where u: "Directive_update cls (instances w inst) np props = (u, this')"
    by (cases "Directive_update cls (instances w inst) np props")
  show ?thesis
    using assms Some entry u
    by (cases u)
      (auto simp: directiveFn_hit write_back_eq legacy_calls_def returned_values_def write_of_def)
next
  case None
  show ?thesis
  proof (cases "legacyPartToPart p w")
    case (Pair t w1)
    show ?thesis
    proof (cases t)
      case (Inl e)
      with None Pair assms legacyPartToPart_Inl [of p w e w1] show ?thesis
        by (auto simp: directiveFn_unknown legacy_calls_def returned_values_def)
    next
      case (Inr np)
      have w1: "w1 = w\<lparr>nextAddr := Suc (nextAddr w)\<rparr>"
        using Pair Inr legacyPartToPart_Inr by blast
      show ?thesis
      proof (cases "construct cls np")
        case (Inl e)
        with None Pair Inr assms show ?thesis
          by (auto simp: directiveFn_miss_throw w1 legacy_calls_def returned_values_def)
      next
        case c: (Inr this0)
        obtain u this' where u: "Directive_update cls this0 np props = (u, this')"
          by (cases "Directive_update cls this0 np props")
        from None Pair Inr c assms u show ?thesis
          by (cases u)
            (auto simp: directiveFn_miss write_back_eq w1 legacy_calls_def returned_values_def
              write_of_def)
      qed
    qed
  qed
qed

lemma renders_events:
  "renders cls m p propss w = (rs, w') \<Longrightarrow>
   \<exists>es. trace w' = trace w @ es
     \<and> legacy_calls es = concat (map (write_of p) (returned_values es))
     \<and> length (returned_values es) = length (filter returns rs)
     \<and> length rs = length propss"
proof (induction propss arbitrary: w rs w')
  case Nil
  then show ?case by (simp add: legacy_calls_def returned_values_def)
next
  case (Cons props rest)
  obtain r w1 where s1: "directiveFn cls m props p w = (r, w1)"
    by (cases "directiveFn cls m props p w")
  obtain rs1 w2 where s2: "renders cls m p rest w1 = (rs1, w2)"
    by (cases "renders cls m p rest w1")
  from Cons.prems s1 s2 have eqs: "rs = r # rs1" "w' = w2" by simp_all
  from directiveFn_events [OF s1] obtain es1 where
    e1: "trace w1 = trace w @ es1"
      "legacy_calls es1 = concat (map (write_of p) (returned_values es1))"
      "length (returned_values es1) = (if returns r then 1 else 0)" by blast
  from Cons.IH [OF s2] obtain es2 where
    e2: "trace w2 = trace w1 @ es2"
      "legacy_calls es2 = concat (map (write_of p) (returned_values es2))"
      "length (returned_values es2) = length (filter returns rs1)"
      "length rs1 = length rest" by blast
  have "trace w' = trace w @ (es1 @ es2)" using e1 e2 eqs by simp
  moreover have "legacy_calls (es1 @ es2) = concat (map (write_of p) (returned_values (es1 @ es2)))"
    using e1 e2 by (simp add: legacy_calls_append returned_values_append)
  moreover have "length (returned_values (es1 @ es2)) = length (filter returns rs)"
    using e1 e2 eqs by (simp add: returned_values_append)
  moreover have "length rs = length (props # rest)" using e2 eqs by simp
  ultimately show ?case by blast
qed

lemma rendered_events_no_Construct:
  "filter is_Construct (rendered_events cls inst np p this propss) = []"
  by (induction propss arbitrary: this) (auto split: prod.splits sum.splits)

lemma renders_miss:
  assumes miss: "WeakMap_get w m p = None"
    and tr: "legacyPartToPart p w = (Inr np, w1)"
    and ct: "construct cls np = Inr this0"
  shows "snd (renders cls m p (props # rest) w) =
     w\<lparr>trace := trace w @ Construct np # rendered_events cls (nextAddr w1) np p this0 (props # rest),
       instances := (instances w)(nextAddr w1 := fields_after cls np this0 (props # rest)),
       nextAddr := Suc (nextAddr w1),
       weakmaps := (weakmaps w)(m := (weakmaps w m)(part_id p \<mapsto> (np, nextAddr w1)))\<rparr>"
proof -
  have w1: "w1 = w\<lparr>nextAddr := Suc (nextAddr w)\<rparr>"
    using tr legacyPartToPart_Inr by blast
  obtain r this' where u: "Directive_update cls this0 np props = (r, this')"
    by (cases "Directive_update cls this0 np props")
  define w3 where "w3 = snd (directiveFn cls m props p w)"
  have w3: "w3 = w\<lparr>trace := trace w @ Construct np # Update (nextAddr w1) np props r #
                   (case r of Inl e \<Rightarrow> [] | Inr v \<Rightarrow> write_of p v),
       instances := (instances w)(nextAddr w1 := this'),
       nextAddr := Suc (nextAddr w1),
       weakmaps := (weakmaps w)(m := (weakmaps w m)(part_id p \<mapsto> (np, nextAddr w1)))\<rparr>"
    unfolding w3_def using u by (simp add: directiveFn_miss [OF miss tr ct] write_back_eq w1)
  have hit: "WeakMap_get w3 m p = Some (np, nextAddr w1)"
    by (simp add: w3 WeakMap_get_def)
  have "snd (renders cls m p (props # rest) w) = snd (renders cls m p rest w3)"
    by (simp add: w3_def split: prod.splits)
  then show ?thesis
    using renders_hit [OF hit, of cls rest] u
    by (cases r) (simp_all add: w3 write_of_def)
qed

lemma renders_unknown:
  "WeakMap_get w m p = None \<Longrightarrow> legacyPartToPart p w = (Inl e, w) \<Longrightarrow>
   renders cls m p propss w = (replicate (length propss) (Inl e), w)"
  by (induction propss) (simp_all add: directiveFn_unknown)

lemma setValue_forwarded:
  "shouldRender (isConnected w) this = (True, this') \<Longrightarrow>
   AsyncDirective_setValue v this w =
     (this', w\<lparr>trace := trace w @ write_of (ddPart this') v\<rparr>)"
  by (simp add: AsyncDirective_setValue_def part_commit_def part_setValue_def write_of_def)

lemma setValue_dropped:
  "shouldRender (isConnected w) this = (False, this') \<Longrightarrow>
   AsyncDirective_setValue v this w = (this', w)"
  by (simp add: AsyncDirective_setValue_def)

lemma renders_from_miss:
  assumes "WeakMap_get w m p = None"
    and "legacyPartToPart p w = (Inr np, w1)"
    and "construct cls np = Inr this0"
    and "renders cls m p (props # rest) w = (rs, w')"
  shows "events_since w w' =
           Construct np # rendered_events cls (nextAddr w1) np p this0 (props # rest)
    \<and> filter is_Construct (events_since w w') = [Construct np]
    \<and> WeakMap_get w' m p = Some (np, nextAddr w1)
    \<and> instances w' (nextAddr w1) = fields_after cls np this0 (props # rest)"
proof -
  have "w' = snd (renders cls m p (props # rest) w)"
    using assms(4) by simp
  then have w': "w' =
     w\<lparr>trace := trace w @ Construct np # rendered_events cls (nextAddr w1) np p this0 (props # rest),
       instances := (instances w)(nextAddr w1 := fields_after cls np this0 (props # rest)),
       nextAddr := Suc (nextAddr w1),
       weakmaps := (weakmaps w)(m := (weakmaps w m)(part_id p \<mapsto> (np, nextAddr w1)))\<rparr>"
    using renders_miss [OF assms(1-3)] by simp
  have ev: "events_since w w' =
      Construct np # rendered_events cls (nextAddr w1) np p this0 (props # rest)"
    by (simp add: w' events_since_def)
  have "filter is_Construct (events_since w w') = [Construct np]"
    unfolding ev using rendered_events_no_Construct [of cls "nextAddr w1" np p this0 "props # rest"]
    by simp
  moreover have "WeakMap_get w' m p = Some (np, nextAddr w1)"
    by (simp add: w' WeakMap_get_def)
  moreover have "instances w' (nextAddr w1) = fields_after cls np this0 (props # rest)"
    by (simp add: w')
  ultimately show ?thesis using ev by blast
qed

lemma renders_from_hit:
  assumes "WeakMap_get v m p = Some (np, inst)"
    and "renders cls m p propss v = (rs, v')"
  shows "events_since v v' = rendered_events cls inst np p (instances v inst) propss
    \<and> filter is_Construct (events_since v v') = []
    \<and> WeakMap_get v' m p = Some (np, inst)
    \<and> instances v' inst = fields_after cls np (instances v inst) propss"
proof -
  have "v' = snd (renders cls m p propss v)"
    using assms(2) by simp
  then have v': "v' =
     v\<lparr>instances := (instances v)(inst := fields_after cls np (instances v inst) propss),
       trace := trace v @ rendered_events cls inst np p (instances v inst) propss\<rparr>"
    using renders_hit [OF assms(1)] by simp
  have ev: "events_since v v' = rendered_events cls inst np p (instances v inst) propss"
    by (simp add: v' events_since_def)
  moreover have "filter is_Construct (events_since v v') = []"
    unfolding ev by (rule rendered_events_no_Construct)
  moreover have "WeakMap_get v' m p = Some (np, inst)"
    using assms(1) by (simp add: v' WeakMap_get_def)
  moreover have "instances v' inst = fields_after cls np (instances v inst) propss"
    by (simp add: v')
  ultimately show ?thesis by blast
qed

section \<open>The registry\<close>

lemma tag_all_directives: "directives (tag_all ds w) = directives w \<union> {a. Ref a \<in> set ds}"
proof (induction ds arbitrary: w)
  case Nil
  then show ?case by simp
next
  case (Cons d ds)
  show ?case
    by (cases d) (auto simp: Cons.IH directives_set_def)
qed

lemma tag_all_objects: "objects (tag_all ds w) = objects w"
proof (induction ds arbitrary: w)
  case Nil
  then show ?case by simp
next
  case (Cons d ds)
  show ?case
    by (cases d) (simp_all add: Cons.IH directives_set_def)
qed

lemma typeof_objects: "objects w' = objects w \<Longrightarrow> typeof w' v = typeof w v"
  by (cases v) (simp_all add: typeof_def)

lemma isDirective_tag_all:
  "isDirective (tag_all ds w) v \<longleftrightarrow>
     typeof w v = ''function'' \<and> (directives_has w v \<or> v \<in> set ds)"
proof (cases v)
  case (Ref a)
  then show ?thesis
    by (auto simp: isDirective_def directives_has_def tag_all_directives
        typeof_objects [OF tag_all_objects])
qed (simp_all add: isDirective_def typeof_def)

section \<open>Connectivity is not read by the directive function\<close>

lemma write_back_isConnected:
  "write_back cls props p np inst (w\<lparr>isConnected := c\<rparr>) =
     (case write_back cls props p np inst w of (r, w') \<Rightarrow> (r, w'\<lparr>isConnected := c\<rparr>))"
  by (simp add: write_back_def instance_update_def part_commit_def part_setValue_def
      split: prod.splits sum.splits)

lemma legacyPartToPart_isConnected:
  "legacyPartToPart p (w\<lparr>isConnected := c\<rparr>) =
     (case legacyPartToPart p w of (r, w') \<Rightarrow> (r, w'\<lparr>isConnected := c\<rparr>))"
  by (simp add: legacyPartToPart_def new_NextPart_def)

lemma new_directiveClass_isConnected:
  "new_directiveClass cls np (w\<lparr>isConnected := c\<rparr>) =
     (case new_directiveClass cls np w of (r, w') \<Rightarrow> (r, w'\<lparr>isConnected := c\<rparr>))"
  by (simp add: new_directiveClass_def Let_def split: sum.splits)

lemma WeakMap_set_isConnected:
  "WeakMap_set m p entry (w\<lparr>isConnected := c\<rparr>) = (WeakMap_set m p entry w)\<lparr>isConnected := c\<rparr>"
  by (simp add: WeakMap_set_def)

lemma directiveFn_isConnected:
  "directiveFn cls m props p (w\<lparr>isConnected := c\<rparr>) =
     (case directiveFn cls m props p w of (r, w') \<Rightarrow> (r, w'\<lparr>isConnected := c\<rparr>))"
  by (simp add: directiveFn_def WeakMap_get_def legacyPartToPart_isConnected
      new_directiveClass_isConnected WeakMap_set_isConnected write_back_isConnected
      split: option.splits prod.splits sum.splits)

section \<open>What the constructor is given\<close>

lemma legacyPartToPart_class:
  "legacyPartToPart p w = (Inr np, w1) \<Longrightarrow>
   next_class np =
     (if instanceof_NodePart p then ChildPart
      else if instanceof_EventPart p then EventPart
      else if instanceof_BooleanAttributePart p then BooleanAttributePart
      else AttributePart)"
  by (auto simp: legacyPartToPart_def new_NextPart_def split: if_splits)

lemma PartInfo_of_translated:
  assumes "legacyPartToPart p w = (Inr np, w1)"
  shows "PartInfo_of np =
     (if instanceof_NodePart p then ChildPartInfo
      else AttributePartInfo
        (if instanceof_EventPart p then EVENT
         else if instanceof_BooleanAttributePart p then BOOLEAN_ATTRIBUTE
         else if instanceof_PropertyPart p then PROPERTY
         else ATTRIBUTE)
        (strings p) (name p) (tagName p))"
  using legacyPartToPart_class [OF assms] legacyPartToPart_Inr [OF assms]
  by (simp add: PartInfo_of_def)

lemma miss_constructs_with_translated_part:
  assumes "WeakMap_get w m p = None"
    and "legacyPartToPart p w = (Inr np, w1)"
    and "directiveFn cls m props p w = (r, w')"
  shows "legacyPart np = p \<and> next_id np = nextAddr w
    \<and> filter is_Construct (events_since w w') = [Construct np]
    \<and> take 1 (events_since w w') = [Construct np]
    \<and> (construct cls np = Inr this0 \<longrightarrow>
          WeakMap_get w' m p = Some (np, nextAddr w1)
        \<and> events_since w w' =
            Construct np # rendered_events cls (nextAddr w1) np p this0 [props]
        \<and> instances w' (nextAddr w1) = snd (Directive_update cls this0 np props))
    \<and> (construct cls np = Inl e \<longrightarrow> r = Inl e \<and> WeakMap_get w' m p = None)
    \<and> (own_fields np = Inr u \<longrightarrow>
          construct (AsyncDirective_subclass own_fields render_method) np =
            Inr (AsyncDirective.extend \<lparr>ddPart = p, renderedYet = False\<rparr> u))"
proof -
  have np: "legacyPart np = p" "next_id np = nextAddr w"
    and w1: "w1 = w\<lparr>nextAddr := Suc (nextAddr w)\<rparr>"
    using legacyPartToPart_Inr [OF assms(2)] by simp_all
  have sub: "construct (AsyncDirective_subclass own_fields render_method) np =
      Inr (AsyncDirective.extend \<lparr>ddPart = p, renderedYet = False\<rparr> u)"
    if "own_fields np = Inr u"
    using that np by (simp add: AsyncDirective_subclass_def AsyncDirective_constructor_def)
  show ?thesis
  proof (cases "construct cls np")
    case (Inl e')
    from directiveFn_miss_throw [OF assms(1,2) Inl, of props] assms(3)
    have "r = Inl e'" and w': "w' = w1\<lparr>trace := trace w1 @ [Construct np]\<rparr>"
      by simp_all
    then show ?thesis
      using np sub Inl assms(1) by (simp add: w1 events_since_def WeakMap_get_def)
  next
    case (Inr this1)
    have run: "renders cls m p [props] w = ([r], w')"
      using assms(3) by simp
    from renders_miss [OF assms(1,2) Inr, of props "[]"] run
    have w': "w' =
      w\<lparr>trace := trace w @ Construct np # rendered_events cls (nextAddr w1) np p this1 [props],
        instances := (instances w)(nextAddr w1 := fields_after cls np this1 [props]),
        nextAddr := Suc (nextAddr w1),
        weakmaps := (weakmaps w)(m := (weakmaps w m)(part_id p \<mapsto> (np, nextAddr w1)))\<rparr>"
      by simp
    have ev: "events_since w w' =
        Construct np # rendered_events cls (nextAddr w1) np p this1 [props]"
      by (simp add: w' events_since_def)
    have "filter is_Construct (events_since w w') = [Construct np]"
      unfolding ev using rendered_events_no_Construct [of cls "nextAddr w1" np p this1 "[props]"]
      by simp
    moreover have "take 1 (events_since w w') = [Construct np]"
      unfolding ev by simp
    moreover have "WeakMap_get w' m p = Some (np, nextAddr w1)"
      by (simp add: w' WeakMap_get_def)
    moreover have "instances w' (nextAddr w1) = snd (Directive_update cls this1 np props)"
      by (simp add: w')
    ultimately show ?thesis
      using np sub Inr ev by simp
  qed
qed

section \<open>Sample runs\<close>

lemma counting_made_eq:
  "counting_made = (loaded 0)\<lparr>weakmaps := (\<lambda>_. Map.empty)(0 := Map.empty), nextAddr := 1\<rparr>"
  by (simp add: counting_made_def directive_def isDirectiveClass_def litNextDirective_def new_WeakMap_def loaded_def)

lemma attribute_site_translated:
  "legacyPartToPart attribute_site counting_made =
     (Inr attribute_next, counting_made\<lparr>nextAddr := 2\<rparr>)"
  by (simp add: legacyPartToPart_def new_NextPart_def attribute_site_def element_site_def
      attribute_next_def counting_made_eq loaded_def)

lemma counting_first_call:
  "directiveFn counting 0 [Str ''x''] attribute_site counting_made =
     (Inr (),
      counting_made\<lparr>trace := [Construct attribute_next,
          Update 2 attribute_next [Str ''x''] (Inr (Str ''x'')), SetValue 1 (Str ''x''), Commit 1],
        instances := (instances counting_made)(2 := 1),
        nextAddr := 3,
        weakmaps := (weakmaps counting_made)(0 := [1 \<mapsto> (attribute_next, 2)])\<rparr>)"
proof -
  have miss: "WeakMap_get counting_made 0 attribute_site = None"
    by (simp add: WeakMap_get_def counting_made_eq loaded_def)
  have ct: "construct counting attribute_next = Inr 0"
    by (simp add: counting_def)
  have pid: "part_id attribute_site = 1"
    by (simp add: attribute_site_def element_site_def)
  have upd: "Directive_update counting 0 attribute_next [Str ''x''] = (Inr (Str ''x''), 1)"
    by (simp add: Directive_update_def counting_def)
  show ?thesis
    unfolding directiveFn_miss [OF miss attribute_site_translated ct]
    by (simp add: write_back_eq [where r = "Inr (Str ''x'')" and this' = 1] upd write_of_def pid
        counting_made_eq loaded_def)
qed

lemma counting_made_trace: "trace counting_made = []"
  by (simp add: counting_made_eq loaded_def)

lemma counting_three_renders:
  "events_since counting_made
       (snd (renders counting 0 attribute_site [[Str ''x''], [], [Str ''y'']] counting_made)) =
     [Construct attribute_next,
      Update 2 attribute_next [Str ''x''] (Inr (Str ''x'')), SetValue 1 (Str ''x''), Commit 1,
      Update 2 attribute_next [] (Inl (Error ''no text'')),
      Update 2 attribute_next [Str ''y''] (Inr (Str ''y!!'')), SetValue 1 (Str ''y!!''), Commit 1]"
proof -
  have miss: "WeakMap_get counting_made 0 attribute_site = None"
    by (simp add: WeakMap_get_def counting_made_eq loaded_def)
  have ct: "construct counting attribute_next = Inr 0"
    by (simp add: counting_def)
  have pid: "part_id attribute_site = 1"
    by (simp add: attribute_site_def element_site_def)
  show ?thesis
    unfolding renders_miss [OF miss attribute_site_translated ct]
    by (simp add: events_since_def Directive_update_def counting_def pid counting_made_trace)
qed

lemma echo_made_eq:
  "echo_made = (loaded \<lparr>ddPart = element_site, renderedYet = False\<rparr>)
     \<lparr>weakmaps := (\<lambda>_. Map.empty)(0 := Map.empty), nextAddr := 1\<rparr>"
  by (simp add: echo_made_def directive_def isDirectiveClass_def litNextDirective_def new_WeakMap_def loaded_def)

lemma node_site_translated:
  "legacyPartToPart node_site echo_made = (Inr node_next, echo_made\<lparr>nextAddr := 2\<rparr>)"
  by (simp add: legacyPartToPart_def new_NextPart_def node_site_def element_site_def
      node_next_def echo_made_eq loaded_def)

lemma echo_construct:
  "construct echo node_next = Inr \<lparr>ddPart = node_site, renderedYet = False\<rparr>"
  by (simp add: echo_def AsyncDirective_subclass_def AsyncDirective_constructor_def
      node_next_def AsyncDirective.defs)

lemma echo_update:
  "Directive_update echo this node_next (v # vs) = (Inr v, this)"
  by (simp add: Directive_update_def echo_def AsyncDirective_subclass_def)

lemma echo_made_fields:
  "trace echo_made = []" "nextAddr echo_made = 1" "weakmaps echo_made 0 = Map.empty"
  "isConnected echo_made = (\<lambda>_. False)"
  by (simp_all add: echo_made_eq loaded_def)

lemma node_site_id: "part_id node_site = 2"
  by (simp add: node_site_def element_site_def)

lemma echo_first_call:
  "directiveFn echo 0 [Str ''a''] node_site echo_made =
     (Inr (),
      echo_made\<lparr>trace := [Construct node_next,
          Update 2 node_next [Str ''a''] (Inr (Str ''a'')), SetValue 2 (Str ''a''), Commit 2],
        instances := (instances echo_made)(2 := \<lparr>ddPart = node_site, renderedYet = False\<rparr>),
        nextAddr := 3,
        weakmaps := (weakmaps echo_made)(0 := [2 \<mapsto> (node_next, 2)])\<rparr>)"
proof -
  have miss: "WeakMap_get echo_made 0 node_site = None"
    by (simp add: WeakMap_get_def echo_made_fields)
  show ?thesis
    unfolding directiveFn_miss [OF miss node_site_translated echo_construct]
    by (simp add: write_back_eq [where r = "Inr (Str ''a'')"
          and this' = "\<lparr>ddPart = node_site, renderedYet = False\<rparr>"]
        echo_update write_of_def node_site_id echo_made_fields)
qed

lemma echo_rendered_eq:
  "echo_rendered =
     echo_made\<lparr>trace := [Construct node_next,
          Update 2 node_next [Str ''a''] (Inr (Str ''a'')), SetValue 2 (Str ''a''), Commit 2,
          SetValue 2 (Str ''b''), Commit 2],
        instances := (instances echo_made)(2 := \<lparr>ddPart = node_site, renderedYet = True\<rparr>),
        nextAddr := 3,
        weakmaps := (weakmaps echo_made)(0 := [2 \<mapsto> (node_next, 2)])\<rparr>"
  by (simp add: echo_rendered_def echo_first_call instance_setValue_def
      AsyncDirective_setValue_def shouldRender_def part_setValue_def part_commit_def
      node_site_id)

lemma node_next_fields:
  "legacyPart node_next = node_site" "next_class node_next = ChildPart"
  by (simp_all add: node_next_def)

section \<open>The instance cache\<close>

text \<open>
  C1. A class-based directive rendered repeatedly at one legacy binding site. When the
  first call finds no cache entry, translates the site to \<open>np\<close> and constructs the
  instance, then over all the renders (the first and any number of later ones, whether
  their \<open>update\<close> returns or throws) the class is constructed exactly once, with \<open>np\<close>,
  by the first call; the cache holds the pair of \<open>np\<close> and that instance. When the
  site has a cache entry already, no render constructs anything and the entry stays as it
  is. In both cases every \<open>update\<close> is called on the cached instance with the cached
  modern Part, and runs on the fields that the \<open>update\<close> of the render before left
  (\<open>rendered_events\<close>, \<open>fields_after\<close>).
\<close>

theorem cached_instance_reused:
  "(WeakMap_get w m p = None \<and> legacyPartToPart p w = (Inr np, w1)
      \<and> construct cls np = Inr this0 \<and> renders cls m p (props # rest) w = (rs, w') \<longrightarrow>
        events_since w w' =
          Construct np # rendered_events cls (nextAddr w1) np p this0 (props # rest)
      \<and> filter is_Construct (events_since w w') = [Construct np]
      \<and> WeakMap_get w' m p = Some (np, nextAddr w1)
      \<and> instances w' (nextAddr w1) = fields_after cls np this0 (props # rest))
   \<and> (WeakMap_get v m p = Some (mp, inst) \<and> renders cls m p propss v = (rs', v') \<longrightarrow>
        events_since v v' = rendered_events cls inst mp p (instances v inst) propss
      \<and> filter is_Construct (events_since v v') = []
      \<and> WeakMap_get v' m p = Some (mp, inst)
      \<and> instances v' inst = fields_after cls mp (instances v inst) propss)"
  using renders_from_miss [of w m p np w1 cls this0 props rest rs w']
    renders_from_hit [of v m p mp inst cls propss rs' v']
  by blast

text \<open>
  The scenario of the spec: \<open>Counting\<close> bound to an attribute site, rendered with \<open>"x"\<close>
  and then with \<open>"y"\<close>. The second \<open>update\<close> sees the count the first one left. Then
  two more renders of the site, starting after the first.
\<close>

theorem cached_instance_reused_witness:
  "WeakMap_get counting_made 0 attribute_site = None
   \<and> construct counting attribute_next = Inr 0
   \<and> events_since counting_made
        (snd (renders counting 0 attribute_site [[Str ''x''], [Str ''y'']] counting_made)) =
      [Construct attribute_next,
       Update 2 attribute_next [Str ''x''] (Inr (Str ''x'')), SetValue 1 (Str ''x''), Commit 1,
       Update 2 attribute_next [Str ''y''] (Inr (Str ''y!'')), SetValue 1 (Str ''y!''), Commit 1]
   \<and> WeakMap_get (snd (renders counting 0 attribute_site [[Str ''x''], [Str ''y'']] counting_made))
        0 attribute_site = Some (attribute_next, 2)
   \<and> instances (snd (renders counting 0 attribute_site [[Str ''x''], [Str ''y'']] counting_made)) 2 = 2
   \<and> WeakMap_get (snd (directiveFn counting 0 [Str ''x''] attribute_site counting_made))
        0 attribute_site = Some (attribute_next, 2)
   \<and> instances (snd (directiveFn counting 0 [Str ''x''] attribute_site counting_made)) 2 = 1
   \<and> events_since (snd (directiveFn counting 0 [Str ''x''] attribute_site counting_made))
        (snd (renders counting 0 attribute_site [[Str ''y''], [Str ''z'']]
          (snd (directiveFn counting 0 [Str ''x''] attribute_site counting_made)))) =
      [Update 2 attribute_next [Str ''y''] (Inr (Str ''y!'')), SetValue 1 (Str ''y!''), Commit 1,
       Update 2 attribute_next [Str ''z''] (Inr (Str ''z!!'')), SetValue 1 (Str ''z!!''), Commit 1]
   \<and> instances (snd (renders counting 0 attribute_site [[Str ''y''], [Str ''z'']]
          (snd (directiveFn counting 0 [Str ''x''] attribute_site counting_made)))) 2 = 3"
proof -
  let ?v = "snd (directiveFn counting 0 [Str ''x''] attribute_site counting_made)"
  have miss: "WeakMap_get counting_made 0 attribute_site = None"
    by (simp add: WeakMap_get_def counting_made_eq loaded_def)
  have ct: "construct counting attribute_next = Inr 0"
    by (simp add: counting_def)
  have run: "renders counting 0 attribute_site [[Str ''x''], [Str ''y'']] counting_made =
      (fst (renders counting 0 attribute_site [[Str ''x''], [Str ''y'']] counting_made),
       snd (renders counting 0 attribute_site [[Str ''x''], [Str ''y'']] counting_made))"
    by simp
  have pid: "part_id attribute_site = 1"
    by (simp add: attribute_site_def element_site_def)
  have hit: "WeakMap_get ?v 0 attribute_site = Some (attribute_next, 2)"
    by (simp add: counting_first_call WeakMap_get_def pid)
  have fields: "instances ?v 2 = 1"
    by (simp add: counting_first_call)
  have run2: "renders counting 0 attribute_site [[Str ''y''], [Str ''z'']] ?v =
      (fst (renders counting 0 attribute_site [[Str ''y''], [Str ''z'']] ?v),
       snd (renders counting 0 attribute_site [[Str ''y''], [Str ''z'']] ?v))"
    by simp
  from cached_instance_reused
    [of counting_made 0 attribute_site attribute_next "counting_made\<lparr>nextAddr := 2\<rparr>" counting 0
      "[Str ''x'']" "[[Str ''y'']]"
      "fst (renders counting 0 attribute_site [[Str ''x''], [Str ''y'']] counting_made)"
      "snd (renders counting 0 attribute_site [[Str ''x''], [Str ''y'']] counting_made)"
      ?v attribute_next 2 "[[Str ''y''], [Str ''z'']]"
      "fst (renders counting 0 attribute_site [[Str ''y''], [Str ''z'']] ?v)"
      "snd (renders counting 0 attribute_site [[Str ''y''], [Str ''z'']] ?v)"]
    miss attribute_site_translated ct run hit run2
  have both: "(events_since counting_made
        (snd (renders counting 0 attribute_site [[Str ''x''], [Str ''y'']] counting_made)) =
        Construct attribute_next #
          rendered_events counting (nextAddr (counting_made\<lparr>nextAddr := 2\<rparr>)) attribute_next
            attribute_site 0 [[Str ''x''], [Str ''y'']]
      \<and> WeakMap_get (snd (renders counting 0 attribute_site [[Str ''x''], [Str ''y'']] counting_made))
          0 attribute_site = Some (attribute_next, nextAddr (counting_made\<lparr>nextAddr := 2\<rparr>))
      \<and> instances (snd (renders counting 0 attribute_site [[Str ''x''], [Str ''y'']] counting_made))
          (nextAddr (counting_made\<lparr>nextAddr := 2\<rparr>)) =
          fields_after counting attribute_next 0 [[Str ''x''], [Str ''y'']])
    \<and> (events_since ?v (snd (renders counting 0 attribute_site [[Str ''y''], [Str ''z'']] ?v)) =
          rendered_events counting 2 attribute_next attribute_site (instances ?v 2)
            [[Str ''y''], [Str ''z'']]
      \<and> instances (snd (renders counting 0 attribute_site [[Str ''y''], [Str ''z'']] ?v)) 2 =
          fields_after counting attribute_next (instances ?v 2) [[Str ''y''], [Str ''z'']])"
    by blast
  show ?thesis
    using both miss ct hit fields
    by (simp add: Directive_update_def counting_def pid del: renders.simps)
qed

section \<open>The write through the legacy site\<close>

text \<open>
  C2. A call of the directive function of a class that does not throw has called \<open>update\<close>
  once on the cached instance with the cached modern Part, and after it \<open>setValue\<close> once, with
  the value \<open>update\<close> returned, and then \<open>commit\<close> once, both on the legacy binding site
  the function was called with; a constructor call comes before them when the site had
  no cache entry. Over any number of renders of a site, the calls on the legacy site are,
  in order, one \<open>setValue\<close>/\<open>commit\<close> pair per \<open>update\<close> that returned, with its value,
  and as many \<open>update\<close>s returned as renders did not throw.
\<close>

theorem write_back_through_legacy_site:
  "(directiveFn cls m props p w = (Inr u, w') \<longrightarrow>
      (\<exists>np inst v this.
         WeakMap_get w' m p = Some (np, inst)
       \<and> Directive_update cls this np props = (Inr v, instances w' inst)
       \<and> (events_since w w' =
            [Update inst np props (Inr v), SetValue (part_id p) v, Commit (part_id p)]
          \<or> events_since w w' =
            [Construct np, Update inst np props (Inr v), SetValue (part_id p) v,
             Commit (part_id p)])))
   \<and> (renders cls m p propss w = (rs, w'') \<longrightarrow>
        legacy_calls (events_since w w'') =
          concat (map (write_of p) (returned_values (events_since w w'')))
      \<and> length (returned_values (events_since w w'')) = length (filter returns rs)
      \<and> length rs = length propss)"
proof (intro conjI impI)
  assume call: "directiveFn cls m props p w = (Inr u, w')"
  show "\<exists>np inst v this.
         WeakMap_get w' m p = Some (np, inst)
       \<and> Directive_update cls this np props = (Inr v, instances w' inst)
       \<and> (events_since w w' =
            [Update inst np props (Inr v), SetValue (part_id p) v, Commit (part_id p)]
          \<or> events_since w w' =
            [Construct np, Update inst np props (Inr v), SetValue (part_id p) v,
             Commit (part_id p)])"
  proof (cases "WeakMap_get w m p")
    case (Some entry)
    obtain np inst where entry: "entry = (np, inst)" by (cases entry)
    obtain r this' where upd: "Directive_update cls (instances w inst) np props = (r, this')"
      by (cases "Directive_update cls (instances w inst) np props")
    from call Some entry upd obtain v where r: "r = Inr v"
      by (cases r) (simp_all add: directiveFn_hit write_back_eq)
    from call Some entry upd r have w': "w' = w\<lparr>instances := (instances w)(inst := this'),
        trace := trace w @ Update inst np props (Inr v) # write_of p v\<rparr>"
      by (auto simp: directiveFn_hit write_back_eq)
    have "WeakMap_get w' m p = Some (np, inst)"
      using Some entry by (simp add: w' WeakMap_get_def)
    moreover have "Directive_update cls (instances w inst) np props = (Inr v, instances w' inst)"
      using upd r by (simp add: w')
    moreover have "events_since w w' =
        [Update inst np props (Inr v), SetValue (part_id p) v, Commit (part_id p)]"
      by (simp add: w' events_since_def write_of_def)
    ultimately show ?thesis by blast
  next
    case None
    obtain t w1 where tr: "legacyPartToPart p w = (t, w1)"
      by (cases "legacyPartToPart p w")
    from call None tr obtain np where t: "t = Inr np"
      by (cases t) (simp_all add: directiveFn_unknown)
    have w1: "w1 = w\<lparr>nextAddr := Suc (nextAddr w)\<rparr>"
      using tr t legacyPartToPart_Inr by blast
    from call None tr t obtain this0 where ct: "construct cls np = Inr this0"
      by (cases "construct cls np") (simp_all add: directiveFn_miss_throw)
    obtain r this' where upd: "Directive_update cls this0 np props = (r, this')"
      by (cases "Directive_update cls this0 np props")
    note miss = directiveFn_miss [OF None tr [unfolded t] ct, of props]
    from call upd obtain v where r: "r = Inr v"
      by (cases r) (simp_all add: miss write_back_eq)
    from call upd r have w': "w' =
       w\<lparr>trace := trace w @ Construct np # Update (nextAddr w1) np props (Inr v) # write_of p v,
         instances := (instances w)(nextAddr w1 := this'),
         nextAddr := Suc (nextAddr w1),
         weakmaps := (weakmaps w)(m := (weakmaps w m)(part_id p \<mapsto> (np, nextAddr w1)))\<rparr>"
      by (auto simp: miss write_back_eq w1)
    have "WeakMap_get w' m p = Some (np, nextAddr w1)"
      by (simp add: w' WeakMap_get_def)
    moreover have "Directive_update cls this0 np props = (Inr v, instances w' (nextAddr w1))"
      using upd r by (simp add: w')
    moreover have "events_since w w' =
        [Construct np, Update (nextAddr w1) np props (Inr v), SetValue (part_id p) v,
         Commit (part_id p)]"
      by (simp add: w' events_since_def write_of_def)
    ultimately show ?thesis by blast
  qed
next
  assume run: "renders cls m p propss w = (rs, w'')"
  from renders_events [OF run] obtain es where
    es: "trace w'' = trace w @ es"
      "legacy_calls es = concat (map (write_of p) (returned_values es))"
      "length (returned_values es) = length (filter returns rs)"
      "length rs = length propss" by blast
  have ev: "events_since w w'' = es" by (simp add: events_since_def es(1))
  show "legacy_calls (events_since w w'') =
          concat (map (write_of p) (returned_values (events_since w w'')))"
    unfolding ev by (rule es(2))
  show "length (returned_values (events_since w w'')) = length (filter returns rs)"
    unfolding ev by (rule es(3))
  show "length rs = length propss" by (rule es(4))
qed

text \<open>
  \<open>Counting\<close> at an attribute site: the first call, and three renders of which the
  second throws.
\<close>

theorem write_back_through_legacy_site_witness:
  "directiveFn counting 0 [Str ''x''] attribute_site counting_made =
      (Inr (), snd (directiveFn counting 0 [Str ''x''] attribute_site counting_made))
   \<and> events_since counting_made
        (snd (directiveFn counting 0 [Str ''x''] attribute_site counting_made)) =
      [Construct attribute_next, Update 2 attribute_next [Str ''x''] (Inr (Str ''x'')),
       SetValue 1 (Str ''x''), Commit 1]
   \<and> legacy_calls (events_since counting_made
        (snd (renders counting 0 attribute_site [[Str ''x''], [], [Str ''y'']] counting_made))) =
      [SetValue 1 (Str ''x''), Commit 1, SetValue 1 (Str ''y!!''), Commit 1]
   \<and> length (filter returns
        (fst (renders counting 0 attribute_site [[Str ''x''], [], [Str ''y'']] counting_made))) = 2"
proof -
  have call: "directiveFn counting 0 [Str ''x''] attribute_site counting_made =
      (Inr (), snd (directiveFn counting 0 [Str ''x''] attribute_site counting_made))"
    by (simp add: counting_first_call)
  have run: "renders counting 0 attribute_site [[Str ''x''], [], [Str ''y'']] counting_made =
      (fst (renders counting 0 attribute_site [[Str ''x''], [], [Str ''y'']] counting_made),
       snd (renders counting 0 attribute_site [[Str ''x''], [], [Str ''y'']] counting_made))"
    by simp
  have pid: "part_id attribute_site = 1"
    by (simp add: attribute_site_def element_site_def)
  have first: "events_since counting_made
        (snd (directiveFn counting 0 [Str ''x''] attribute_site counting_made)) =
      [Construct attribute_next, Update 2 attribute_next [Str ''x''] (Inr (Str ''x'')),
       SetValue 1 (Str ''x''), Commit 1]"
    by (simp add: counting_first_call events_since_def counting_made_trace)
  from write_back_through_legacy_site
    [of counting 0 "[Str ''x'']" attribute_site counting_made "()"
      "snd (directiveFn counting 0 [Str ''x''] attribute_site counting_made)"
      "[[Str ''x''], [], [Str ''y'']]"
      "fst (renders counting 0 attribute_site [[Str ''x''], [], [Str ''y'']] counting_made)"
      "snd (renders counting 0 attribute_site [[Str ''x''], [], [Str ''y'']] counting_made)"]
    run
  have "legacy_calls (events_since counting_made
        (snd (renders counting 0 attribute_site [[Str ''x''], [], [Str ''y'']] counting_made))) =
      concat (map (write_of attribute_site) (returned_values (events_since counting_made
        (snd (renders counting 0 attribute_site [[Str ''x''], [], [Str ''y'']] counting_made)))))
    \<and> length (returned_values (events_since counting_made
        (snd (renders counting 0 attribute_site [[Str ''x''], [], [Str ''y'']] counting_made)))) =
      length (filter returns
        (fst (renders counting 0 attribute_site [[Str ''x''], [], [Str ''y'']] counting_made)))"
    by blast
  then show ?thesis
    using call first
    by (simp add: counting_three_renders returned_values_def write_of_def pid del: renders.simps)
qed

section \<open>Translation and its failure\<close>

text \<open>
  C3. A legacy binding site that passes none of the five \<open>instanceof\<close> tests (it is neither
  a child, an event, a boolean-attribute, a property nor an attribute part): translation
  throws the error \<open>Unknown part type\<close>, and a directive function of a class, called with
  such a site that has no cache entry, throws that error and leaves the whole world as it
  was: no cache entry, no modern Part, no instance, no recorded call; the same holds for
  any number of renders of the site.
\<close>

theorem unknown_part_type_changes_nothing:
  assumes "\<not> instanceof_NodePart p" and "\<not> instanceof_EventPart p"
    and "\<not> instanceof_BooleanAttributePart p"
    and "\<not> instanceof_PropertyPart p" and "\<not> instanceof_AttributePart p"
    and "WeakMap_get w m p = None"
  shows "legacyPartToPart p w = (Inl (Error ''Unknown part type''), w)
    \<and> directiveFn cls m props p w = (Inl (Error ''Unknown part type''), w)
    \<and> renders cls m p propss w =
        (replicate (length propss) (Inl (Error ''Unknown part type'')), w)"
proof -
  have tr: "legacyPartToPart p w = (Inl (Error ''Unknown part type''), w)"
    using assms(1-5) by (simp add: legacyPartToPart_def)
  show ?thesis
    using tr directiveFn_unknown [OF assms(6) tr] renders_unknown [OF assms(6) tr]
    by simp
qed

text \<open>A site with an element only and no class, rendered twice by \<open>Counting\<close>.\<close>

theorem unknown_part_type_changes_nothing_witness:
  "\<not> instanceof_NodePart element_site \<and> \<not> instanceof_EventPart element_site
   \<and> \<not> instanceof_BooleanAttributePart element_site
   \<and> \<not> instanceof_PropertyPart element_site \<and> \<not> instanceof_AttributePart element_site
   \<and> WeakMap_get counting_made 0 element_site = None
   \<and> legacyPartToPart element_site counting_made =
        (Inl (Error ''Unknown part type''), counting_made)
   \<and> directiveFn counting 0 [Str ''x''] element_site counting_made =
        (Inl (Error ''Unknown part type''), counting_made)
   \<and> renders counting 0 element_site [[Str ''x''], [Str ''y'']] counting_made =
        ([Inl (Error ''Unknown part type''), Inl (Error ''Unknown part type'')], counting_made)"
proof -
  have shape: "\<not> instanceof_NodePart element_site" "\<not> instanceof_EventPart element_site"
    "\<not> instanceof_BooleanAttributePart element_site"
    "\<not> instanceof_PropertyPart element_site" "\<not> instanceof_AttributePart element_site"
    by (simp_all add: element_site_def)
  have miss: "WeakMap_get counting_made 0 element_site = None"
    by (simp add: WeakMap_get_def counting_made_eq loaded_def)
  show ?thesis
    using unknown_part_type_changes_nothing
      [OF shape miss, of counting "[Str ''x'']" "[[Str ''x''], [Str ''y'']]"] shape miss
    by (simp del: renders.simps)
qed

text \<open>
  C4. The translator tests the class of the legacy binding site in the order child, event,
  boolean attribute, then property or attribute, and the first test that holds decides:
  the result is a new modern Part of the class \<open>ChildPart\<close>, \<open>EventPart\<close>,
  \<open>BooleanAttributePart\<close> or \<open>AttributePart\<close> (property and attribute alike) whose
  \<open>legacyPart\<close> is exactly the site given.
\<close>

theorem legacyPartToPart_in_order:
  "(instanceof_NodePart p \<longrightarrow>
      legacyPartToPart p w =
        (Inr \<lparr>next_id = nextAddr w, next_class = ChildPart, legacyPart = p\<rparr>,
         w\<lparr>nextAddr := Suc (nextAddr w)\<rparr>))
   \<and> (\<not> instanceof_NodePart p \<and> instanceof_EventPart p \<longrightarrow>
      legacyPartToPart p w =
        (Inr \<lparr>next_id = nextAddr w, next_class = EventPart, legacyPart = p\<rparr>,
         w\<lparr>nextAddr := Suc (nextAddr w)\<rparr>))
   \<and> (\<not> instanceof_NodePart p \<and> \<not> instanceof_EventPart p
        \<and> instanceof_BooleanAttributePart p \<longrightarrow>
      legacyPartToPart p w =
        (Inr \<lparr>next_id = nextAddr w, next_class = BooleanAttributePart, legacyPart = p\<rparr>,
         w\<lparr>nextAddr := Suc (nextAddr w)\<rparr>))
   \<and> (\<not> instanceof_NodePart p \<and> \<not> instanceof_EventPart p
        \<and> \<not> instanceof_BooleanAttributePart p
        \<and> (instanceof_PropertyPart p \<or> instanceof_AttributePart p) \<longrightarrow>
      legacyPartToPart p w =
        (Inr \<lparr>next_id = nextAddr w, next_class = AttributePart, legacyPart = p\<rparr>,
         w\<lparr>nextAddr := Suc (nextAddr w)\<rparr>))"
  by (simp add: legacyPartToPart_def new_NextPart_def)

text \<open>
  A site that is both a child and an event part becomes a \<open>ChildPart\<close>, one that is both
  an event and an attribute part an \<open>EventPart\<close>; the other three kinds.
\<close>

theorem legacyPartToPart_in_order_witness:
  "fst (legacyPartToPart (node_site\<lparr>instanceof_EventPart := True\<rparr>) counting_made) =
     Inr \<lparr>next_id = 1, next_class = ChildPart,
          legacyPart = node_site\<lparr>instanceof_EventPart := True\<rparr>\<rparr>
   \<and> fst (legacyPartToPart (event_site\<lparr>instanceof_AttributePart := True\<rparr>) counting_made) =
     Inr \<lparr>next_id = 1, next_class = EventPart,
          legacyPart = event_site\<lparr>instanceof_AttributePart := True\<rparr>\<rparr>
   \<and> fst (legacyPartToPart boolean_site counting_made) =
     Inr \<lparr>next_id = 1, next_class = BooleanAttributePart, legacyPart = boolean_site\<rparr>
   \<and> fst (legacyPartToPart property_site counting_made) =
     Inr \<lparr>next_id = 1, next_class = AttributePart, legacyPart = property_site\<rparr>
   \<and> fst (legacyPartToPart attribute_site counting_made) =
     Inr \<lparr>next_id = 1, next_class = AttributePart, legacyPart = attribute_site\<rparr>"
  using legacyPartToPart_in_order [of "node_site\<lparr>instanceof_EventPart := True\<rparr>" counting_made]
    legacyPartToPart_in_order [of "event_site\<lparr>instanceof_AttributePart := True\<rparr>" counting_made]
    legacyPartToPart_in_order [of boolean_site counting_made]
    legacyPartToPart_in_order [of property_site counting_made]
    legacyPartToPart_in_order [of attribute_site counting_made]
  by (simp add: node_site_def event_site_def boolean_site_def property_site_def
      attribute_site_def element_site_def counting_made_eq loaded_def)

section \<open>The connectivity gate of an async directive\<close>

text \<open>
  C7. An \<open>AsyncDirective\<close> starts never-rendered (\<open>renderedYet\<close> is false after the
  constructor). Called in that state, \<open>setValue(v)\<close> calls \<open>setValue(v)\<close> and then \<open>commit()\<close>
  on the legacy binding site and leaves the instance rendered, in every world: whatever
  the DOM node of the site is and whether or not it is connected.
\<close>

theorem first_setValue_always_commits:
  "\<not> renderedYet (AsyncDirective_constructor partInfo)
   \<and> (\<not> renderedYet this \<longrightarrow>
        AsyncDirective_setValue v this w =
          (this\<lparr>renderedYet := True\<rparr>,
           w\<lparr>trace := trace w @
              [SetValue (part_id (ddPart this)) v, Commit (part_id (ddPart this))]\<rparr>))"
proof (intro conjI impI)
  show "\<not> renderedYet (AsyncDirective_constructor partInfo)"
    by (simp add: AsyncDirective_constructor_def)
next
  assume "\<not> renderedYet this"
  then have "shouldRender (isConnected w) this = (True, this\<lparr>renderedYet := True\<rparr>)"
    by (simp add: shouldRender_def)
  from setValue_forwarded [OF this]
  show "AsyncDirective_setValue v this w =
          (this\<lparr>renderedYet := True\<rparr>,
           w\<lparr>trace := trace w @
              [SetValue (part_id (ddPart this)) v, Commit (part_id (ddPart this))]\<rparr>)"
    by (simp add: write_of_def)
qed

text \<open>A new instance at a child site whose start node is detached.\<close>

theorem first_setValue_always_commits_witness:
  "ddGetNode (AsyncDirective_constructor node_next) = Some 20
   \<and> \<not> isConnected echo_made 20
   \<and> \<not> renderedYet (AsyncDirective_constructor node_next)
   \<and> AsyncDirective_setValue (Str ''a'') (AsyncDirective_constructor node_next) echo_made =
       (\<lparr>ddPart = node_site, renderedYet = True\<rparr>,
        echo_made\<lparr>trace := [SetValue 2 (Str ''a''), Commit 2]\<rparr>)"
  using first_setValue_always_commits
    [of node_next "AsyncDirective_constructor node_next" "Str ''a''" echo_made]
  by (simp add: AsyncDirective_constructor_def node_next_def ddGetNode_def node_site_def
      element_site_def echo_made_eq loaded_def)

text \<open>
  C8. Called on a rendered instance, \<open>setValue(v)\<close> finds the host node of the legacy part
  (\<open>ddGetNode\<close>: the start node of a child part; else the element of an event or
  boolean-attribute part; else the committer's element of a property or attribute part;
  else none). When there is a node and it is not connected, nothing is called on the
  legacy site and nothing else changes; when the node is connected, or there is none,
  \<open>setValue(v)\<close> and \<open>commit()\<close> are called on the legacy site. The instance stays rendered.
\<close>

theorem later_setValue_gated_by_connectivity:
  "(renderedYet this \<longrightarrow>
      AsyncDirective_setValue v this w =
        (case ddGetNode this of
           None \<Rightarrow> (this, w\<lparr>trace := trace w @
               [SetValue (part_id (ddPart this)) v, Commit (part_id (ddPart this))]\<rparr>)
         | Some node \<Rightarrow>
             if isConnected w node
             then (this, w\<lparr>trace := trace w @
               [SetValue (part_id (ddPart this)) v, Commit (part_id (ddPart this))]\<rparr>)
             else (this, w)))
   \<and> (instanceof_NodePart (ddPart this) \<longrightarrow> ddGetNode this = startNode (ddPart this))
   \<and> (\<not> instanceof_NodePart (ddPart this)
        \<and> (instanceof_EventPart (ddPart this) \<or> instanceof_BooleanAttributePart (ddPart this))
        \<longrightarrow> ddGetNode this = element (ddPart this))
   \<and> (\<not> instanceof_NodePart (ddPart this) \<and> \<not> instanceof_EventPart (ddPart this)
        \<and> \<not> instanceof_BooleanAttributePart (ddPart this)
        \<and> (instanceof_PropertyPart (ddPart this) \<or> instanceof_AttributePart (ddPart this))
        \<longrightarrow> ddGetNode this = committer_element (ddPart this))
   \<and> (\<not> instanceof_NodePart (ddPart this) \<and> \<not> instanceof_EventPart (ddPart this)
        \<and> \<not> instanceof_BooleanAttributePart (ddPart this)
        \<and> \<not> instanceof_PropertyPart (ddPart this) \<and> \<not> instanceof_AttributePart (ddPart this)
        \<longrightarrow> ddGetNode this = None)"
proof -
  have "AsyncDirective_setValue v this w =
        (case ddGetNode this of
           None \<Rightarrow> (this, w\<lparr>trace := trace w @
               [SetValue (part_id (ddPart this)) v, Commit (part_id (ddPart this))]\<rparr>)
         | Some node \<Rightarrow>
             if isConnected w node
             then (this, w\<lparr>trace := trace w @
               [SetValue (part_id (ddPart this)) v, Commit (part_id (ddPart this))]\<rparr>)
             else (this, w))" if "renderedYet this"
  proof (cases "ddGetNode this")
    case None
    with that have "shouldRender (isConnected w) this = (True, this)"
      by (simp add: shouldRender_def)
    from setValue_forwarded [OF this] None show ?thesis by (simp add: write_of_def)
  next
    case (Some node)
    show ?thesis
    proof (cases "isConnected w node")
      case True
      with that Some have "shouldRender (isConnected w) this = (True, this)"
        by (simp add: shouldRender_def)
      from setValue_forwarded [OF this] Some True show ?thesis by (simp add: write_of_def)
    next
      case False
      with that Some have "shouldRender (isConnected w) this = (False, this)"
        by (simp add: shouldRender_def)
      from setValue_dropped [OF this] Some False show ?thesis by simp
    qed
  qed
  then show ?thesis by (simp add: ddGetNode_def)
qed

text \<open>
  The node of each kind of site; a rendered instance at a child site with its start node
  detached, then attached; and one at a site without a node.
\<close>

theorem later_setValue_gated_by_connectivity_witness:
  "renderedYet \<lparr>ddPart = node_site, renderedYet = True\<rparr>
   \<and> ddGetNode \<lparr>ddPart = node_site, renderedYet = True\<rparr> = Some 20
   \<and> ddGetNode \<lparr>ddPart = event_site, renderedYet = True\<rparr> = Some 50
   \<and> ddGetNode \<lparr>ddPart = boolean_site, renderedYet = True\<rparr> = Some 40
   \<and> ddGetNode \<lparr>ddPart = property_site, renderedYet = True\<rparr> = Some 30
   \<and> ddGetNode \<lparr>ddPart = attribute_site, renderedYet = True\<rparr> = Some 10
   \<and> ddGetNode \<lparr>ddPart = element_site, renderedYet = True\<rparr> = None
   \<and> AsyncDirective_setValue (Str ''b'') \<lparr>ddPart = node_site, renderedYet = True\<rparr> echo_made =
       (\<lparr>ddPart = node_site, renderedYet = True\<rparr>, echo_made)
   \<and> AsyncDirective_setValue (Str ''b'') \<lparr>ddPart = node_site, renderedYet = True\<rparr>
        (echo_made\<lparr>isConnected := (\<lambda>n. n = 20)\<rparr>) =
       (\<lparr>ddPart = node_site, renderedYet = True\<rparr>,
        echo_made\<lparr>isConnected := (\<lambda>n. n = 20), trace := [SetValue 2 (Str ''b''), Commit 2]\<rparr>)
   \<and> AsyncDirective_setValue (Str ''b'') \<lparr>ddPart = element_site, renderedYet = True\<rparr> echo_made =
       (\<lparr>ddPart = element_site, renderedYet = True\<rparr>,
        echo_made\<lparr>trace := [SetValue 6 (Str ''b''), Commit 6]\<rparr>)"
  using later_setValue_gated_by_connectivity
      [of "\<lparr>ddPart = node_site, renderedYet = True\<rparr>" "Str ''b''" echo_made]
    later_setValue_gated_by_connectivity
      [of "\<lparr>ddPart = node_site, renderedYet = True\<rparr>" "Str ''b''"
        "echo_made\<lparr>isConnected := (\<lambda>n. n = 20)\<rparr>"]
    later_setValue_gated_by_connectivity
      [of "\<lparr>ddPart = element_site, renderedYet = True\<rparr>" "Str ''b''" echo_made]
    later_setValue_gated_by_connectivity
      [of "\<lparr>ddPart = event_site, renderedYet = True\<rparr>" "Str ''b''" echo_made]
    later_setValue_gated_by_connectivity
      [of "\<lparr>ddPart = boolean_site, renderedYet = True\<rparr>" "Str ''b''" echo_made]
    later_setValue_gated_by_connectivity
      [of "\<lparr>ddPart = property_site, renderedYet = True\<rparr>" "Str ''b''" echo_made]
    later_setValue_gated_by_connectivity
      [of "\<lparr>ddPart = attribute_site, renderedYet = True\<rparr>" "Str ''b''" echo_made]
  by (simp add: node_site_def event_site_def boolean_site_def property_site_def
      attribute_site_def element_site_def echo_made_eq loaded_def)

section \<open>Tagging\<close>

text \<open>
  C5. Starting from the empty registry and tagging the values \<open>ds\<close>, \<open>isDirective\<close> holds
  of a value exactly when it is a function and one of the tagged values; so it is false
  of every value never tagged. Tagging is by identity: of two distinct function objects
  with the same code, of which one is tagged, \<open>isDirective\<close> holds of that one and not
  of the other.
\<close>

theorem isDirective_iff_tagged_function:
  assumes "directives w = {}"
  shows "(isDirective (tag_all ds w) v \<longleftrightarrow> typeof w v = ''function'' \<and> v \<in> set ds)
    \<and> (a \<noteq> b \<and> objects w a = objects w b \<and> typeof w (Ref a) = ''function'' \<longrightarrow>
          typeof w (Ref b) = ''function''
        \<and> isDirective (tag_all [Ref a] w) (Ref a)
        \<and> \<not> isDirective (tag_all [Ref a] w) (Ref b))"
proof -
  have no: "\<not> directives_has w u" for u
    using assms by (cases u) (simp_all add: directives_has_def)
  have iff: "isDirective (tag_all ds' w) u \<longleftrightarrow> typeof w u = ''function'' \<and> u \<in> set ds'"
    for ds' u
    by (simp add: isDirective_tag_all no)
  have "typeof w (Ref b) = typeof w (Ref a)" if "objects w a = objects w b"
    using that by (simp add: typeof_def)
  then show ?thesis
    by (auto simp: iff simp del: tag_all.simps)
qed

text \<open>
  Two functions with the same code of which the first is tagged; a tagged plain object
  and a string that \<open>directives.set\<close> refuses are no directives.
\<close>

theorem isDirective_iff_tagged_function_witness:
  "directives with_functions = {}
   \<and> objects with_functions 0 = objects with_functions 1
   \<and> typeof with_functions (Ref 0) = ''function''
   \<and> typeof with_functions (Ref 1) = ''function''
   \<and> isDirective (tag_all [Ref 0] with_functions) (Ref 0)
   \<and> \<not> isDirective (tag_all [Ref 0] with_functions) (Ref 1)
   \<and> \<not> isDirective (tag_all [Str ''f'', Ref 5, Ref 0] with_functions) (Ref 5)
   \<and> \<not> isDirective (tag_all [Str ''f'', Ref 5, Ref 0] with_functions) (Str ''f'')
   \<and> isDirective (tag_all [Str ''f'', Ref 5, Ref 0] with_functions) (Ref 0)"
proof -
  have empty: "directives with_functions = {}"
    by (simp add: with_functions_def loaded_def)
  show ?thesis
    using isDirective_iff_tagged_function [OF empty, of "[Ref 0]" "Ref 0" 0 1]
      isDirective_iff_tagged_function [OF empty, of "[Str ''f'', Ref 5, Ref 0]" "Ref 5" 0 1]
      isDirective_iff_tagged_function [OF empty, of "[Str ''f'', Ref 5, Ref 0]" "Str ''f''" 0 1]
      isDirective_iff_tagged_function [OF empty, of "[Str ''f'', Ref 5, Ref 0]" "Ref 0" 0 1]
      empty
    by (simp add: typeof_def with_functions_def loaded_def del: tag_all.simps)
qed

section \<open>The wrapper of a plain factory\<close>

text \<open>
  C6, as stated, says that distinct invocations of the wrapper return distinct results.
  A factory that returns one shared function returns it from every invocation of the
  wrapper: here two invocations, with different arguments, both return the function at
  address 0.
\<close>

theorem shared_function_counterexample:
  "fst (directive_plain shared_factory [] with_functions) = Inr (Ref 0)
   \<and> fst (directive_plain shared_factory [Num 1]
        (snd (directive_plain shared_factory [] with_functions))) = Inr (Ref 0)
   \<and> typeof with_functions (Ref 0) = ''function''"
  by (simp add: directive_plain_def shared_factory_def directives_set_def typeof_def
      with_functions_def loaded_def)

text \<open>
  C6, amended. For a plain factory \<open>directive\<close> returns the wrapper and does nothing else.
  An invocation of the wrapper calls the factory with the arguments given, in the world as
  it is; when the factory returns an object, the wrapper adds it to the registry and
  returns it, and it satisfies \<open>isDirective\<close> when it is a function; when the factory
  throws, so does the wrapper. Nothing is cached: the next invocation calls the factory
  again and returns what that call returns, so two results are distinct exactly when the
  factory returned distinct objects. The factory that \<open>litNextDirective\<close> passes makes a
  new function at every call, and two invocations of its wrapper return different functions.
\<close>

theorem plain_wrapper_tags_and_returns:
  "directive (Factory f) w0 = (directive_plain f, w0)
   \<and> (f args w = (Inr (Ref a), w1) \<longrightarrow>
        directive_plain f args w = (Inr (Ref a), w1\<lparr>directives := insert a (directives w1)\<rparr>)
      \<and> (typeof w1 (Ref a) = ''function'' \<longrightarrow>
           isDirective (w1\<lparr>directives := insert a (directives w1)\<rparr>) (Ref a)))
   \<and> (f args w = (Inr (Ref a), w1)
        \<and> f args' (w1\<lparr>directives := insert a (directives w1)\<rparr>) = (Inr (Ref a'), w2) \<longrightarrow>
        directive_plain f args' (snd (directive_plain f args w)) =
          (Inr (Ref a'), w2\<lparr>directives := insert a' (directives w2)\<rparr>))
   \<and> (f args w = (Inl e, w1) \<longrightarrow> directive_plain f args w = (Inl e, w1))
   \<and> fst (directive_plain (litNext_factory cls m) props w) = Inr (Ref (nextAddr w))
   \<and> fst (directive_plain (litNext_factory cls m) props'
        (snd (directive_plain (litNext_factory cls m) props w))) = Inr (Ref (Suc (nextAddr w)))"
  by (simp add: directive_def isDirectiveClass_def directive_plain_def directives_set_def
      isDirective_def
      directives_has_def typeof_def litNext_factory_def)

text \<open>The shared factory, and the factory of \<open>litNextDirective\<close> invoked twice.\<close>

theorem plain_wrapper_tags_and_returns_witness:
  "shared_factory [] with_functions = (Inr (Ref 0), with_functions)
   \<and> directive_plain shared_factory [] with_functions =
       (Inr (Ref 0), with_functions\<lparr>directives := {0}\<rparr>)
   \<and> isDirective (with_functions\<lparr>directives := {0}\<rparr>) (Ref 0)
   \<and> fst (directive_plain (litNext_factory counting 0) [Str ''x''] counting_made) = Inr (Ref 1)
   \<and> fst (directive_plain (litNext_factory counting 0) [Str ''x'']
        (snd (directive_plain (litNext_factory counting 0) [Str ''x''] counting_made))) =
       Inr (Ref 2)"
proof -
  have f: "shared_factory [] with_functions = (Inr (Ref 0), with_functions)"
    by (simp add: shared_factory_def)
  have d: "directives with_functions = {}"
    by (simp add: with_functions_def loaded_def)
  have t: "typeof with_functions (Ref 0) = ''function''"
    by (simp add: typeof_def with_functions_def loaded_def)
  have n: "nextAddr counting_made = 1"
    by (simp add: counting_made_eq)
  show ?thesis
    using plain_wrapper_tags_and_returns
      [of shared_factory with_functions "[]" with_functions 0 with_functions "[]" 0
        with_functions "Error []" counting 0 "[Str ''x'']" "[Str ''x'']"]
      plain_wrapper_tags_and_returns
      [of shared_factory with_functions "[]" counting_made 0 with_functions "[]" 0
        with_functions "Error []" counting 0 "[Str ''x'']" "[Str ''x'']"]
      f d t n
    by simp
qed

section \<open>Construction on a cache miss\<close>

text \<open>
  C9. When the directive function of a class is called with a site that has no cache
  entry and that translates to the modern Part \<open>np\<close>, the class is constructed once, before
  anything else is recorded, and the constructor's argument (its \<open>PartInfo\<close>) is \<open>np\<close>
  itself: the new modern Part, made by this call, whose class follows the kind of the site
  and whose \<open>legacyPart\<close> is the site. Read as a \<open>PartInfo\<close>, it is a value that carries the
  part kind (child, event, boolean attribute, property or attribute, as the site was
  classified) and, for every kind but child, the attribute name, the owning tag name and
  the literal string fragments of the site. When the constructor returns, the pair of
  \<open>np\<close> and the new instance is stored for the site and \<open>update\<close> runs on the fields the
  constructor set; when it throws, the call throws and nothing is stored. The constructor
  of \<open>AsyncDirective\<close> takes \<open>ddPart\<close> from that argument: it is the site.
\<close>

theorem instance_constructed_with_modern_part:
  assumes "WeakMap_get w m p = None"
    and "legacyPartToPart p w = (Inr np, w1)"
    and "directiveFn cls m props p w = (r, w')"
  shows "legacyPart np = p \<and> next_id np = nextAddr w
    \<and> next_class np =
        (if instanceof_NodePart p then ChildPart
         else if instanceof_EventPart p then EventPart
         else if instanceof_BooleanAttributePart p then BooleanAttributePart
         else AttributePart)
    \<and> PartInfo_type (PartInfo_of np) =
        (if instanceof_NodePart p then CHILD
         else if instanceof_EventPart p then EVENT
         else if instanceof_BooleanAttributePart p then BOOLEAN_ATTRIBUTE
         else if instanceof_PropertyPart p then PROPERTY
         else ATTRIBUTE)
    \<and> (instanceof_NodePart p \<longrightarrow> PartInfo_of np = ChildPartInfo)
    \<and> (\<not> instanceof_NodePart p \<longrightarrow>
          PartInfo_of np =
            AttributePartInfo
              (if instanceof_EventPart p then EVENT
               else if instanceof_BooleanAttributePart p then BOOLEAN_ATTRIBUTE
               else if instanceof_PropertyPart p then PROPERTY
               else ATTRIBUTE)
              (strings p) (name p) (tagName p))
    \<and> filter is_Construct (events_since w w') = [Construct np]
    \<and> take 1 (events_since w w') = [Construct np]
    \<and> (construct cls np = Inr this0 \<longrightarrow>
          WeakMap_get w' m p = Some (np, nextAddr w1)
        \<and> events_since w w' =
            Construct np # rendered_events cls (nextAddr w1) np p this0 [props]
        \<and> instances w' (nextAddr w1) = snd (Directive_update cls this0 np props))
    \<and> (construct cls np = Inl e \<longrightarrow> r = Inl e \<and> WeakMap_get w' m p = None)
    \<and> (own_fields np = Inr u \<longrightarrow>
          construct (AsyncDirective_subclass own_fields render_method) np =
            Inr (AsyncDirective.extend \<lparr>ddPart = p, renderedYet = False\<rparr> u))"
proof -
  note old = miss_constructs_with_translated_part [OF assms, of this0 e own_fields u render_method]
  have cls: "next_class np =
        (if instanceof_NodePart p then ChildPart
         else if instanceof_EventPart p then EventPart
         else if instanceof_BooleanAttributePart p then BooleanAttributePart
         else AttributePart)"
    by (rule legacyPartToPart_class [OF assms(2)])
  note info = PartInfo_of_translated [OF assms(2)]
  have ty: "PartInfo_type (PartInfo_of np) =
        (if instanceof_NodePart p then CHILD
         else if instanceof_EventPart p then EVENT
         else if instanceof_BooleanAttributePart p then BOOLEAN_ATTRIBUTE
         else if instanceof_PropertyPart p then PROPERTY
         else ATTRIBUTE)"
    by (simp add: info)
  have child: "PartInfo_of np = ChildPartInfo" if "instanceof_NodePart p"
    using that by (simp add: info)
  have attr: "PartInfo_of np =
      AttributePartInfo
        (if instanceof_EventPart p then EVENT
         else if instanceof_BooleanAttributePart p then BOOLEAN_ATTRIBUTE
         else if instanceof_PropertyPart p then PROPERTY
         else ATTRIBUTE)
        (strings p) (name p) (tagName p)"
    if "\<not> instanceof_NodePart p"
    using that by (simp add: info)
  show ?thesis
    using old cls ty child attr by blast
qed

text \<open>
  \<open>Echo\<close> called for the first time at a child site, and \<open>Counting\<close> at an attribute site
  and at a property site.
\<close>

theorem instance_constructed_with_modern_part_witness:
  "WeakMap_get echo_made 0 node_site = None
   \<and> legacyPartToPart node_site echo_made = (Inr node_next, echo_made\<lparr>nextAddr := 2\<rparr>)
   \<and> legacyPart node_next = node_site
   \<and> next_class node_next = ChildPart
   \<and> PartInfo_of node_next = ChildPartInfo
   \<and> construct echo node_next = Inr \<lparr>ddPart = node_site, renderedYet = False\<rparr>
   \<and> events_since echo_made (snd (directiveFn echo 0 [Str ''a''] node_site echo_made)) =
       [Construct node_next, Update 2 node_next [Str ''a''] (Inr (Str ''a'')),
        SetValue 2 (Str ''a''), Commit 2]
   \<and> WeakMap_get (snd (directiveFn echo 0 [Str ''a''] node_site echo_made)) 0 node_site =
       Some (node_next, 2)
   \<and> instances (snd (directiveFn echo 0 [Str ''a''] node_site echo_made)) 2 =
       \<lparr>ddPart = node_site, renderedYet = False\<rparr>
   \<and> \<not> instanceof_NodePart attribute_site
   \<and> WeakMap_get counting_made 0 attribute_site = None
   \<and> next_class attribute_next = AttributePart
   \<and> PartInfo_of attribute_next =
       AttributePartInfo ATTRIBUTE (Some [''a '', '' b'']) ''class'' ''DIV''
   \<and> take 1 (events_since counting_made
         (snd (directiveFn counting 0 [Str ''x''] attribute_site counting_made))) =
       [Construct attribute_next]
   \<and> \<not> instanceof_NodePart property_site
   \<and> WeakMap_get counting_made 0 property_site = None
   \<and> PartInfo_of property_next =
       AttributePartInfo PROPERTY (Some [[], []]) ''value'' ''INPUT''
   \<and> take 1 (events_since counting_made
         (snd (directiveFn counting 0 [Str ''x''] property_site counting_made))) =
       [Construct property_next]"
proof -
  have miss: "WeakMap_get echo_made 0 node_site = None"
    by (simp add: WeakMap_get_def echo_made_fields)
  have call: "directiveFn echo 0 [Str ''a''] node_site echo_made =
      (fst (directiveFn echo 0 [Str ''a''] node_site echo_made),
       snd (directiveFn echo 0 [Str ''a''] node_site echo_made))"
    by simp
  have child: "instanceof_NodePart node_site"
    by (simp add: node_site_def element_site_def)
  have echo_part: "legacyPart node_next = node_site
   \<and> next_class node_next = ChildPart
   \<and> PartInfo_of node_next = ChildPartInfo
   \<and> events_since echo_made (snd (directiveFn echo 0 [Str ''a''] node_site echo_made)) =
       [Construct node_next, Update 2 node_next [Str ''a''] (Inr (Str ''a'')),
        SetValue 2 (Str ''a''), Commit 2]
   \<and> WeakMap_get (snd (directiveFn echo 0 [Str ''a''] node_site echo_made)) 0 node_site =
       Some (node_next, 2)
   \<and> instances (snd (directiveFn echo 0 [Str ''a''] node_site echo_made)) 2 =
       \<lparr>ddPart = node_site, renderedYet = False\<rparr>"
    using instance_constructed_with_modern_part [OF miss node_site_translated call,
        of "\<lparr>ddPart = node_site, renderedYet = False\<rparr>" "Error []" "\<lambda>_. Inr ()" "()"
          "render echo"]
      echo_construct child
    by (simp add: echo_update node_site_id)
  have attr_shape: "\<not> instanceof_NodePart attribute_site"
    "\<not> instanceof_EventPart attribute_site"
    "\<not> instanceof_BooleanAttributePart attribute_site"
    "\<not> instanceof_PropertyPart attribute_site"
    "strings attribute_site = Some [''a '', '' b'']" "name attribute_site = ''class''"
    "tagName attribute_site = ''DIV''"
    by (simp_all add: attribute_site_def element_site_def)
  have attr_miss: "WeakMap_get counting_made 0 attribute_site = None"
    by (simp add: WeakMap_get_def counting_made_eq loaded_def)
  have attr_call: "directiveFn counting 0 [Str ''x''] attribute_site counting_made =
      (fst (directiveFn counting 0 [Str ''x''] attribute_site counting_made),
       snd (directiveFn counting 0 [Str ''x''] attribute_site counting_made))"
    by simp
  have attr_part: "next_class attribute_next = AttributePart
   \<and> PartInfo_of attribute_next =
       AttributePartInfo ATTRIBUTE (Some [''a '', '' b'']) ''class'' ''DIV''
   \<and> take 1 (events_since counting_made
         (snd (directiveFn counting 0 [Str ''x''] attribute_site counting_made))) =
       [Construct attribute_next]"
    using instance_constructed_with_modern_part [OF attr_miss attribute_site_translated attr_call,
        of 0 "Error []" "\<lambda>_. Inr ()" "()" "render echo"]
      attr_shape
    by simp
  have prop_shape: "\<not> instanceof_NodePart property_site"
    "\<not> instanceof_EventPart property_site"
    "\<not> instanceof_BooleanAttributePart property_site"
    "instanceof_PropertyPart property_site"
    "strings property_site = Some [[], []]" "name property_site = ''value''"
    "tagName property_site = ''INPUT''"
    by (simp_all add: property_site_def attribute_site_def element_site_def)
  have prop_miss: "WeakMap_get counting_made 0 property_site = None"
    by (simp add: WeakMap_get_def counting_made_eq loaded_def)
  have prop_translated: "legacyPartToPart property_site counting_made =
      (Inr property_next, counting_made\<lparr>nextAddr := 2\<rparr>)"
    using prop_shape(1-4)
    by (simp add: legacyPartToPart_def new_NextPart_def property_next_def counting_made_eq
        loaded_def)
  have prop_call: "directiveFn counting 0 [Str ''x''] property_site counting_made =
      (fst (directiveFn counting 0 [Str ''x''] property_site counting_made),
       snd (directiveFn counting 0 [Str ''x''] property_site counting_made))"
    by simp
  have prop_part: "PartInfo_of property_next =
       AttributePartInfo PROPERTY (Some [[], []]) ''value'' ''INPUT''
   \<and> take 1 (events_since counting_made
         (snd (directiveFn counting 0 [Str ''x''] property_site counting_made))) =
       [Construct property_next]"
    using instance_constructed_with_modern_part [OF prop_miss prop_translated prop_call,
        of 0 "Error []" "\<lambda>_. Inr ()" "()" "render echo"]
      prop_shape
    by simp
  show ?thesis
    using echo_part attr_part prop_part miss node_site_translated echo_construct
      attr_shape(1) attr_miss prop_shape(1) prop_miss
    by blast
qed

section \<open>The gate does not apply to the adapter's own write\<close>

text \<open>
  C10. Take an instance of a subclass of \<open>AsyncDirective\<close> that is cached for a site, has
  rendered, and whose host node is detached. A value its author pushes with \<open>setValue\<close>
  is dropped: the world stays as it is. A render of the site whose \<open>update\<close> returns
  \<open>v\<close> still calls \<open>setValue(v)\<close> and \<open>commit()\<close> on the legacy site. For any class and
  world, the directive function does the same whatever the connectivity of the nodes is.
\<close>

theorem adapter_write_back_not_gated:
  assumes "WeakMap_get w m p = Some (np, inst)"
    and "ddPart (instances w inst) = p"
    and "renderedYet (instances w inst)"
    and "ddGetNode (instances w inst) = Some node"
    and "\<not> isConnected w node"
    and "Directive_update cls (instances w inst) np props = (Inr v, this')"
  shows "instance_setValue inst v w = w
    \<and> directiveFn cls m props p w =
        (Inr (),
         w\<lparr>instances := (instances w)(inst := this'),
           trace := trace w @
             [Update inst np props (Inr v), SetValue (part_id p) v, Commit (part_id p)]\<rparr>)
    \<and> directiveFn cls m props p (w\<lparr>isConnected := c\<rparr>) =
        (case directiveFn cls m props p w of (r, w') \<Rightarrow> (r, w'\<lparr>isConnected := c\<rparr>))"
proof -
  have "shouldRender (isConnected w) (instances w inst) = (False, instances w inst)"
    using assms(3-5) by (simp add: shouldRender_def)
  from setValue_dropped [OF this]
  have "instance_setValue inst v w = w"
    by (simp add: instance_setValue_def)
  moreover have "directiveFn cls m props p w =
        (Inr (),
         w\<lparr>instances := (instances w)(inst := this'),
           trace := trace w @
             [Update inst np props (Inr v), SetValue (part_id p) v, Commit (part_id p)]\<rparr>)"
    using assms(6) by (simp add: directiveFn_hit [OF assms(1)] write_back_eq write_of_def)
  ultimately show ?thesis
    by (simp add: directiveFn_isConnected)
qed

text \<open>\<open>Echo\<close> at a child site with a detached start node, after its first \<open>setValue\<close>.\<close>

theorem adapter_write_back_not_gated_witness:
  "WeakMap_get echo_rendered 0 node_site = Some (node_next, 2)
   \<and> instances echo_rendered 2 = \<lparr>ddPart = node_site, renderedYet = True\<rparr>
   \<and> ddGetNode (instances echo_rendered 2) = Some 20
   \<and> \<not> isConnected echo_rendered 20
   \<and> instance_setValue 2 (Str ''c'') echo_rendered = echo_rendered
   \<and> directiveFn echo 0 [Str ''c''] node_site echo_rendered =
       (Inr (),
        echo_rendered\<lparr>trace := trace echo_rendered @
          [Update 2 node_next [Str ''c''] (Inr (Str ''c'')), SetValue 2 (Str ''c''), Commit 2]\<rparr>)"
proof -
  have hit: "WeakMap_get echo_rendered 0 node_site = Some (node_next, 2)"
    by (simp add: WeakMap_get_def echo_rendered_eq node_site_id)
  have fields: "instances echo_rendered 2 = \<lparr>ddPart = node_site, renderedYet = True\<rparr>"
    by (simp add: echo_rendered_eq)
  have part: "ddPart (instances echo_rendered 2) = node_site"
    and rendered: "renderedYet (instances echo_rendered 2)"
    by (simp_all add: fields)
  have node: "ddGetNode (instances echo_rendered 2) = Some 20"
    by (simp add: fields ddGetNode_def node_site_def element_site_def)
  have detached: "\<not> isConnected echo_rendered 20"
    by (simp add: echo_rendered_eq echo_made_fields)
  have same: "(instances echo_rendered)(2 := \<lparr>ddPart = node_site, renderedYet = True\<rparr>) =
      instances echo_rendered"
    using fields by (rule fun_upd_idem)
  have upd: "Directive_update echo (instances echo_rendered 2) node_next [Str ''c''] =
      (Inr (Str ''c''), instances echo_rendered 2)"
    by (simp add: echo_update)
  show ?thesis
    using adapter_write_back_not_gated [OF hit part rendered node detached upd]
      hit fields node detached same
    by (simp add: node_site_id)
qed

end
